theory Spec2Isabelle
  imports Main "HOL-Library.Word"
begin

section \<open>JavaScript strings\<close>

text \<open>
  A JavaScript string is a sequence of UTF-16 code units. Literals of the source are
  written \<open>js ''...''\<close>; all of them are ASCII.
\<close>

type_synonym jsstring = "16 word list"

definition js :: "string \<Rightarrow> jsstring" where
  "js s = map of_char s"

text \<open>\<^verbatim>\<open>s.startsWith(p)\<close>\<close>

fun startsWith :: "'a list \<Rightarrow> 'a list \<Rightarrow> bool" where
  "startsWith s [] = True"
| "startsWith [] (p # ps) = False"
| "startsWith (c # cs) (p # ps) = (c = p \<and> startsWith cs ps)"

text \<open>
  \<^verbatim>\<open>s.replace(pat, rep)\<close> with a string pattern: only the first occurrence of \<open>pat\<close>
  is replaced. (The replacement strings of the source contain no \<^verbatim>\<open>$\<close> pattern.)
\<close>

fun replace :: "'a list \<Rightarrow> 'a list \<Rightarrow> 'a list \<Rightarrow> 'a list" where
  "replace [] pat rep = (if pat = [] then rep else [])"
| "replace (c # cs) pat rep =
     (if startsWith (c # cs) pat then rep @ drop (length pat) (c # cs)
      else c # replace cs pat rep)"

text \<open>
  \<^verbatim>\<open>s.trim()\<close> strips the ECMAScript WhiteSpace and LineTerminator code points from
  both ends.
\<close>

definition isWhiteSpace :: "16 word \<Rightarrow> bool" where
  "isWhiteSpace c \<longleftrightarrow>
     c \<in> {0x09, 0x0A, 0x0B, 0x0C, 0x0D, 0x20, 0xA0, 0x1680, 0x2028, 0x2029, 0x202F, 0x205F,
          0x3000, 0xFEFF}
     \<or> (0x2000 \<le> c \<and> c \<le> 0x200A)"

definition trim :: "jsstring \<Rightarrow> jsstring" where
  "trim s = rev (dropWhile isWhiteSpace (rev (dropWhile isWhiteSpace s)))"

text \<open>Number-to-string conversion of a non-negative integer, and of an integer.\<close>

fun digits :: "nat \<Rightarrow> jsstring" where
  "digits n = (if n < 10 then [48 + of_nat n] else digits (n div 10) @ [48 + of_nat (n mod 10)])"

declare digits.simps [simp del]

definition showInt :: "int \<Rightarrow> jsstring" where
  "showInt i = (if i < 0 then 45 # digits (nat (- i)) else digits (nat i))"

text \<open>\<^verbatim>\<open>xs.join(sep)\<close> on an array of strings.\<close>

fun join :: "jsstring list \<Rightarrow> jsstring \<Rightarrow> jsstring" where
  "join [] sep = []"
| "join [x] sep = x"
| "join (x # y # ys) sep = x @ sep @ join (y # ys) sep"


section \<open>JavaScript values and faults\<close>

text \<open>
  Values as \<^verbatim>\<open>response.json()\<close> produces them, plus \<^verbatim>\<open>undefined\<close>. The number type
  is a parameter: the code only tests numbers against zero and converts them to strings.
  An object is the association list of its own properties.
\<close>

datatype 'n jsval =
    JUndefined
  | JNull
  | JBool bool
  | JNum 'n
  | JStr jsstring
  | JArr "'n jsval list"
  | JObj "(jsstring \<times> 'n jsval) list"

text \<open>
  A thrown value (a rejected promise): an instance of \<^verbatim>\<open>Error\<close> with its message, or
  anything else.
\<close>

datatype thrown = ErrorObj jsstring | NonError

text \<open>
  What is left to the JavaScript engine: the conversion of a non-string value to a string,
  and the wording of the \<^verbatim>\<open>TypeError\<close> raised when a property of \<^verbatim>\<open>undefined\<close> or
  \<^verbatim>\<open>null\<close> is read, or when a property that is not a function is called.
\<close>

datatype 'n fault_site = ReadOf "'n jsval" jsstring | CallOf "'n jsval" jsstring

record 'n runtime =
  toString :: "'n jsval \<Rightarrow> jsstring"
  typeErrorMessage :: "'n fault_site \<Rightarrow> jsstring"

text \<open>\<^verbatim>\<open>!!v\<close>. Numbers parsed from JSON are never NaN, so a number is falsy iff it is zero.\<close>

fun truthy :: "('n::zero) jsval \<Rightarrow> bool" where
  "truthy JUndefined = False"
| "truthy JNull = False"
| "truthy (JBool b) = b"
| "truthy (JNum n) = (n \<noteq> 0)"
| "truthy (JStr s) = (s \<noteq> [])"
| "truthy (JArr xs) = True"
| "truthy (JObj kvs) = True"

fun nullish :: "'n jsval \<Rightarrow> bool" where
  "nullish JUndefined = True"
| "nullish JNull = True"
| "nullish v = False"

text \<open>
  \<^verbatim>\<open>v.p\<close> for \<open>v\<close> neither \<^verbatim>\<open>undefined\<close> nor \<^verbatim>\<open>null\<close> and \<open>p\<close> one of the names the
  source reads (\<^verbatim>\<open>error\<close>, \<^verbatim>\<open>message\<close>, \<^verbatim>\<open>choices\<close>, \<^verbatim>\<open>content\<close>), none of which is
  defined by a prototype: an object yields its own property, everything else
  \<^verbatim>\<open>undefined\<close>.
\<close>

fun ownProp :: "'n jsval \<Rightarrow> jsstring \<Rightarrow> 'n jsval" where
  "ownProp (JObj kvs) p = (case map_of kvs p of Some v \<Rightarrow> v | None \<Rightarrow> JUndefined)"
| "ownProp v p = JUndefined"

text \<open>\<^verbatim>\<open>v.p\<close>: reading a property of \<^verbatim>\<open>undefined\<close> or \<^verbatim>\<open>null\<close> throws a TypeError.\<close>

definition getProp :: "'n runtime \<Rightarrow> 'n jsval \<Rightarrow> jsstring \<Rightarrow> thrown + 'n jsval" where
  "getProp rt v p =
     (if nullish v then Inl (ErrorObj (typeErrorMessage rt (ReadOf v p))) else Inr (ownProp v p))"

text \<open>\<^verbatim>\<open>v?.p\<close>\<close>

definition optProp :: "'n jsval \<Rightarrow> jsstring \<Rightarrow> 'n jsval" where
  "optProp v p = (if nullish v then JUndefined else ownProp v p)"

text \<open>
  \<^verbatim>\<open>v.length === 0\<close> and \<^verbatim>\<open>v[0]\<close>, for a truthy \<open>v\<close> (the source guards both with
  \<^verbatim>\<open>!data.choices ||\<close>): arrays and strings have a length and elements, an object has
  what its own properties \<^verbatim>\<open>length\<close> and \<^verbatim>\<open>0\<close> hold, numbers and booleans have neither.
\<close>

fun lengthIs0 :: "('n::zero) jsval \<Rightarrow> bool" where
  "lengthIs0 (JArr xs) = (xs = [])"
| "lengthIs0 (JStr s) = (s = [])"
| "lengthIs0 (JObj kvs) = (case map_of kvs (js ''length'') of Some (JNum n) \<Rightarrow> n = 0 | _ \<Rightarrow> False)"
| "lengthIs0 v = False"

fun index0 :: "'n jsval \<Rightarrow> 'n jsval" where
  "index0 (JArr xs) = (case xs of [] \<Rightarrow> JUndefined | x # _ \<Rightarrow> x)"
| "index0 (JStr s) = (case s of [] \<Rightarrow> JUndefined | c # _ \<Rightarrow> JStr [c])"
| "index0 (JObj kvs) = (case map_of kvs (js ''0'') of Some v \<Rightarrow> v | None \<Rightarrow> JUndefined)"
| "index0 v = JUndefined"

text \<open>\<^verbatim>\<open>String(v)\<close>, as \<^verbatim>\<open>new Error(v)\<close> applies it to its argument.\<close>

definition jsString :: "'n runtime \<Rightarrow> 'n jsval \<Rightarrow> jsstring" where
  "jsString rt v = (case v of JStr s \<Rightarrow> s | _ \<Rightarrow> toString rt v)"


section \<open>The Volcano Engine client (services/volcanoService)\<close>

record VolcanoCredentials =
  apiKey :: jsstring

text \<open>
  The response of \<^verbatim>\<open>fetch\<close>: its status, and what \<^verbatim>\<open>response.json()\<close> settles to (a
  rejection when the body is not JSON). \<^verbatim>\<open>response.ok\<close> is true for a status from 200
  to 299.
\<close>

record 'n http_response =
  statusCode :: nat
  jsonBody :: "thrown + 'n jsval"

definition ok :: "'n http_response \<Rightarrow> bool" where
  "ok response \<longleftrightarrow> 200 \<le> statusCode response \<and> statusCode response \<le> 299"

text \<open>The request handed to \<^verbatim>\<open>fetch\<close>; the body is kept structured.\<close>

record http_request =
  endpoint :: jsstring
  httpMethod :: jsstring
  headers :: "(jsstring \<times> jsstring) list"
  bodyModel :: jsstring
  bodyMessages :: "(jsstring \<times> jsstring) list"

definition apiEndpoint :: jsstring where
  "apiEndpoint = js ''https://ark.cn-beijing.volces.com/api/v3/chat/completions''"

definition modelId :: jsstring where
  "modelId = js ''ep-20250718110917-jckmt''"

definition volcanoRequest :: "jsstring \<Rightarrow> VolcanoCredentials \<Rightarrow> http_request" where
  "volcanoRequest fullPrompt creds =
     \<lparr> endpoint = apiEndpoint,
       httpMethod = js ''POST'',
       headers = [(js ''Authorization'', js ''Bearer '' @ apiKey creds),
                  (js ''Content-Type'', js ''application/json'')],
       bodyModel = modelId,
       bodyMessages = [(js ''user'', fullPrompt)] \<rparr>"

definition keyRequired :: jsstring where
  "keyRequired = js ''Error: Volcano Engine API Key is required but was not provided.''"

definition invalidStructure :: jsstring where
  "invalidStructure = js ''Received an invalid response structure from the API.''"

definition requestFailed :: "nat \<Rightarrow> jsstring" where
  "requestFailed code = js ''API request failed with status '' @ digits code"

definition volcanoFailure :: "jsstring \<Rightarrow> jsstring" where
  "volcanoFailure m = js ''Error during Volcano Engine summary generation: '' @ m"

definition volcanoUnknown :: jsstring where
  "volcanoUnknown = js ''An unknown error occurred during Volcano Engine summary generation.''"

text \<open>
  The check of a 2xx body and the value returned:
  \<^verbatim>\<open>if (!data.choices || data.choices.length === 0 || !data.choices[0].message?.content)
      throw new Error("Received an invalid response structure from the API.");
  return data.choices[0].message.content;\<close>
\<close>

definition checkData :: "('n::zero) runtime \<Rightarrow> 'n jsval \<Rightarrow> thrown + 'n jsval" where
  "checkData rt data =
     (case getProp rt data (js ''choices'') of
        Inl e \<Rightarrow> Inl e
      | Inr choices \<Rightarrow>
          if \<not> truthy choices \<or> lengthIs0 choices then Inl (ErrorObj invalidStructure)
          else (case getProp rt (index0 choices) (js ''message'') of
                  Inl e \<Rightarrow> Inl e
                | Inr message \<Rightarrow>
                    let content = optProp message (js ''content'')
                    in if \<not> truthy content then Inl (ErrorObj invalidStructure)
                       else Inr content))"

text \<open>
  What the code does to the outside world, in order: a call of \<open>parsePdf\<close> (by the
  index of the file), a call of the Gemini SDK (model, contents), a request handed to
  \<^verbatim>\<open>fetch\<close>.
\<close>

datatype effect =
    ParsePdf nat
  | GenerateContent jsstring jsstring
  | Fetch http_request

text \<open>
  The \<^verbatim>\<open>try\<close> block. \<open>fetch\<close> is what the network answers to a request: a rejection
  or a response.
\<close>

definition volcanoTry ::
  "('n::zero) runtime \<Rightarrow> (http_request \<Rightarrow> thrown + 'n http_response) \<Rightarrow> http_request
     \<Rightarrow> thrown + 'n jsval" where
  "volcanoTry rt fetch request =
     (case fetch request of
        Inl e \<Rightarrow> Inl e
      | Inr response \<Rightarrow>
          if \<not> ok response then
            (let errorBody = (case jsonBody response of Inl e \<Rightarrow> JObj [] | Inr b \<Rightarrow> b);
                 m = optProp (optProp errorBody (js ''error'')) (js ''message'');
                 errorMessage = (if truthy m then jsString rt m
                                 else requestFailed (statusCode response))
             in Inl (ErrorObj errorMessage))
          else (case jsonBody response of
                  Inl e \<Rightarrow> Inl e
                | Inr data \<Rightarrow> checkData rt data))"

text \<open>
  \<open>generateSummaryFromVolcano\<close>: the promise it returns (\<open>Inl\<close> a rejection, \<open>Inr\<close> the
  value it resolves to) and the requests it issued.
\<close>

definition generateSummaryFromVolcano ::
  "('n::zero) runtime \<Rightarrow> (http_request \<Rightarrow> thrown + 'n http_response) \<Rightarrow> jsstring
     \<Rightarrow> VolcanoCredentials \<Rightarrow> (thrown + 'n jsval) \<times> effect list" where
  "generateSummaryFromVolcano rt fetch fullPrompt creds =
     (if apiKey creds = [] then (Inr (JStr keyRequired), [])
      else
        (Inr (case volcanoTry rt fetch (volcanoRequest fullPrompt creds) of
                Inr v \<Rightarrow> v
              | Inl (ErrorObj m) \<Rightarrow> JStr (volcanoFailure m)
              | Inl NonError \<Rightarrow> JStr volcanoUnknown),
         [Fetch (volcanoRequest fullPrompt creds)]))"


section \<open>The Gemini client (services/geminiService)\<close>

definition geminiFailure :: "jsstring \<Rightarrow> jsstring" where
  "geminiFailure m = js ''Error during summary generation: '' @ m"

definition geminiUnknown :: jsstring where
  "geminiUnknown = js ''An unknown error occurred during summary generation.''"

text \<open>
  \<open>generateContent\<close> is what \<^verbatim>\<open>ai.models.generateContent({model, contents})\<close> settles to:
  a rejection, or the \<^verbatim>\<open>text\<close> of the response. The text is returned as it is.
\<close>

definition generateSummaryFromText ::
  "(jsstring \<Rightarrow> jsstring \<Rightarrow> thrown + 'n jsval) \<Rightarrow> jsstring \<Rightarrow> jsstring
     \<Rightarrow> (thrown + 'n jsval) \<times> effect list" where
  "generateSummaryFromText generateContent fullPrompt modelName =
     (Inr (case generateContent modelName fullPrompt of
             Inr text \<Rightarrow> text
           | Inl (ErrorObj m) \<Rightarrow> JStr (geminiFailure m)
           | Inl NonError \<Rightarrow> JStr geminiUnknown),
      [GenerateContent modelName fullPrompt])"


section \<open>The application (App.tsx)\<close>

datatype ProcessingStatus = IDLE | PROCESSING | SUCCESS | ERROR

text \<open>
  An entry of the ledger (types.ts); \<open>id'\<close> is its field \<^verbatim>\<open>id\<close>, and the optional
  \<^verbatim>\<open>error\<close> is absent in \<open>None\<close>. Of a \<^verbatim>\<open>File\<close> the code reads the name (a base
  name, without the folder), the time of the last modification and the MIME type. The time
  is a time value: a whole number of milliseconds, at most 8.64e15 in absolute value. The
  identifier of an entry prints it with \<open>showInt\<close>, as the template literal does for
  a whole number below \<open>2 ^ 53\<close>.
\<close>

record SummaryResult =
  id' :: jsstring
  fileName :: jsstring
  content :: jsstring
  status :: ProcessingStatus
  error :: "jsstring option"

record File =
  name :: jsstring
  lastModified :: int
  type :: jsstring

datatype ApiProvider = Gemini | Volcano

text \<open>The state of the component: one field for each \<^verbatim>\<open>useState\<close>.\<close>

record App =
  files :: "File list"
  prompt :: jsstring
  apiProvider :: ApiProvider
  selectedModel :: jsstring
  volcanoCreds :: VolcanoCredentials
  results :: "SummaryResult list"
  isProcessing :: bool
  globalError :: jsstring
  apiKeyMissing :: bool

text \<open>
  The collaborators of a batch, by the index of the file being processed: what pdf.js makes
  of the file (a rejection of \<^verbatim>\<open>arrayBuffer\<close> or \<^verbatim>\<open>getDocument\<close>, or the pages 1 to
  \<^verbatim>\<open>numPages\<close>, each a rejection of \<^verbatim>\<open>getPage\<close> or \<^verbatim>\<open>getTextContent\<close> or the
  \<^verbatim>\<open>str\<close> of its items), the Gemini SDK and the network.
\<close>

type_synonym pdf_page = "thrown + jsstring list"

type_synonym pdf_document = "thrown + pdf_page list"

record 'n world =
  pdfjs :: "nat \<Rightarrow> pdf_document"
  gemini :: "nat \<Rightarrow> jsstring \<Rightarrow> jsstring \<Rightarrow> thrown + 'n jsval"
  network :: "nat \<Rightarrow> http_request \<Rightarrow> thrown + 'n http_response"

definition handleFileSelect :: "File list option \<Rightarrow> App \<Rightarrow> App" where
  "handleFileSelect selectedFiles s =
     (case selectedFiles of
        None \<Rightarrow> s
      | Some allFiles \<Rightarrow>
          let pdfFiles = filter (\<lambda>file. type file = js ''application/pdf'') allFiles
          in s\<lparr> globalError :=
                  (if length pdfFiles \<noteq> length allFiles
                   then js ''Some selected files were not PDFs and have been ignored.''
                   else []),
                files := pdfFiles,
                results := [] \<rparr>)"

text \<open>The loop of \<open>parsePdf\<close> over the pages, with \<open>fullText\<close> as accumulator.\<close>

fun parsePages :: "pdf_page list \<Rightarrow> jsstring \<Rightarrow> thrown + jsstring" where
  "parsePages [] fullText = Inr fullText"
| "parsePages (page # pages) fullText =
     (case page of
        Inl e \<Rightarrow> Inl e
      | Inr items \<Rightarrow> parsePages pages (fullText @ join items (js '' '') @ [0x0A, 0x0A]))"

definition parsePdf :: "pdf_document \<Rightarrow> thrown + jsstring" where
  "parsePdf document = (case document of Inl e \<Rightarrow> Inl e | Inr pages \<Rightarrow> parsePages pages [])"

text \<open>The template literal, line by line; \<open>0x0A\<close> is the line feed, \<open>0x22\<close> the double quote.\<close>

definition constructFullPrompt :: "jsstring \<Rightarrow> jsstring \<Rightarrow> jsstring" where
  "constructFullPrompt pdfText userPrompt =
     [0x0A]
     @ js ''          Based on the following user request, please analyze the provided PDF content and generate a response.'' @ [0x0A]
     @ js ''    '' @ [0x0A]
     @ js ''          USER REQUEST:'' @ [0x0A]
     @ js ''          '' @ [0x22] @ userPrompt @ [0x22, 0x0A]
     @ js ''    '' @ [0x0A]
     @ js ''          The final output should be in plain TEXT format.'' @ [0x0A]
     @ js ''    '' @ [0x0A]
     @ js ''          --- PDF CONTENT START ---'' @ [0x0A]
     @ js ''          '' @ pdfText @ [0x0A]
     @ js ''          --- PDF CONTENT END ---'' @ [0x0A]
     @ js ''        ''"

definition selectNotice :: jsstring where
  "selectNotice = js ''Please select a folder with PDFs and enter a prompt.''"

definition noText :: jsstring where
  "noText = js ''Could not extract any text from the PDF. It might be an image-only PDF.''"

definition initialResults :: "File list \<Rightarrow> SummaryResult list" where
  "initialResults fs =
     map (\<lambda>file. \<lparr> id' = name file @ js ''-'' @ showInt (lastModified file),
                   fileName = name file,
                   content = [],
                   status = PROCESSING,
                   error = None \<rparr>) fs"

text \<open>The call of the selected client (lines 110 to 114).\<close>

definition callModel ::
  "('n::zero) runtime \<Rightarrow> 'n world \<Rightarrow> App \<Rightarrow> nat \<Rightarrow> jsstring
     \<Rightarrow> (thrown + 'n jsval) \<times> effect list" where
  "callModel rt w s i fullPrompt =
     (if apiProvider s = Gemini
      then generateSummaryFromText (gemini w i) fullPrompt (selectedModel s)
      else generateSummaryFromVolcano rt (network w i) fullPrompt (volcanoCreds s))"

text \<open>
  \<^verbatim>\<open>if (summary.startsWith("Error")) throw new Error(summary);\<close> A value that is not
  a string has no method \<^verbatim>\<open>startsWith\<close>: the call throws a TypeError.
\<close>

definition checkSummary :: "'n runtime \<Rightarrow> 'n jsval \<Rightarrow> thrown + jsstring" where
  "checkSummary rt summary =
     (case summary of
        JStr text \<Rightarrow> if startsWith text (js ''Error'') then Inl (ErrorObj text) else Inr text
      | v \<Rightarrow> Inl (ErrorObj (typeErrorMessage rt
               (if nullish v then ReadOf v (js ''startsWith'') else CallOf v (js ''startsWith'')))))"

text \<open>
  The \<^verbatim>\<open>try\<close> block of iteration \<open>i\<close> (lines 102 to 118), for the file
  \<^verbatim>\<open>files[i]\<close>, of which pdf.js makes \<open>pdfjs w i\<close>: the summary, or what was thrown, and
  the effects.
\<close>

definition tryFile ::
  "('n::zero) runtime \<Rightarrow> 'n world \<Rightarrow> App \<Rightarrow> nat \<Rightarrow> (thrown + jsstring) \<times> effect list" where
  "tryFile rt w s i =
     (case parsePdf (pdfjs w i) of
        Inl e \<Rightarrow> (Inl e, [ParsePdf i])
      | Inr pdfText \<Rightarrow>
          if trim pdfText = [] then (Inl (ErrorObj noText), [ParsePdf i])
          else
            (let fullPrompt = constructFullPrompt pdfText (prompt s);
                 call = callModel rt w s i fullPrompt
             in (case fst call of
                   Inl e \<Rightarrow> Inl e
                 | Inr summary \<Rightarrow> checkSummary rt summary,
                 ParsePdf i # snd call)))"

text \<open>\<^verbatim>\<open>error instanceof Error ? error.message : 'An unknown error occurred'\<close>\<close>

definition catchMessage :: "thrown \<Rightarrow> jsstring" where
  "catchMessage e = (case e of ErrorObj m \<Rightarrow> m | NonError \<Rightarrow> js ''An unknown error occurred'')"

text \<open>The two functional updates handed to \<^verbatim>\<open>setResults\<close> (lines 120 and 126).\<close>

definition setSuccess :: "nat \<Rightarrow> jsstring \<Rightarrow> SummaryResult list \<Rightarrow> SummaryResult list" where
  "setSuccess i summary prev =
     map (\<lambda>(index, res). if index = i then res\<lparr> status := SUCCESS, content := summary \<rparr> else res)
       (enumerate 0 prev)"

definition setError :: "nat \<Rightarrow> jsstring \<Rightarrow> SummaryResult list \<Rightarrow> SummaryResult list" where
  "setError i errorMessage prev =
     map (\<lambda>(index, res). if index = i then res\<lparr> status := ERROR, error := Some errorMessage \<rparr> else res)
       (enumerate 0 prev)"

text \<open>One iteration of the loop: its effects and the ledger after it.\<close>

definition iteration ::
  "('n::zero) runtime \<Rightarrow> 'n world \<Rightarrow> App \<Rightarrow> nat \<Rightarrow> SummaryResult list
     \<Rightarrow> effect list \<times> SummaryResult list" where
  "iteration rt w s i prev =
     (let attempt = tryFile rt w s i
      in (snd attempt,
          case fst attempt of
            Inr summary \<Rightarrow> setSuccess i summary prev
          | Inl e \<Rightarrow> setError i (catchMessage e) prev))"

text \<open>
  The handlers of the other controls. None of these controls is disabled while a batch
  runs (only the button that calls \<open>handleGenerate\<close> is, and the control of the export
  is not shown): the file input, the choice of the provider, the field of the key, the
  prompt and the choice of the model.
\<close>

datatype event =
    FilesSelected "File list option"
  | ProviderChosen ApiProvider
  | KeyEntered jsstring
  | PromptEntered jsstring
  | ModelChosen jsstring

fun handleEvent :: "event \<Rightarrow> App \<Rightarrow> App" where
  "handleEvent (FilesSelected selectedFiles) st = handleFileSelect selectedFiles st"
| "handleEvent (ProviderChosen provider) st = st\<lparr> apiProvider := provider \<rparr>"
| "handleEvent (KeyEntered key) st = st\<lparr> volcanoCreds := \<lparr> apiKey = key \<rparr> \<rparr>"
| "handleEvent (PromptEntered text) st = st\<lparr> prompt := text \<rparr>"
| "handleEvent (ModelChosen model) st = st\<lparr> selectedModel := model \<rparr>"

text \<open>
  \<^verbatim>\<open>for (let i = 0; i < files.length; i++)\<close>: the effects of each iteration and the
  state after it. The callback closes over \<open>files\<close>, \<open>prompt\<close>, the provider, the model and
  the credentials of the state \<open>s\<close> it was created in. An iteration is suspended at its
  \<^verbatim>\<open>await\<close>s (lines 102, 111 and 113), where the handlers of other events run:
  \<open>events i\<close> are the events that arrive while iteration \<open>i\<close> is suspended, in order. The
  update that the iteration hands to \<^verbatim>\<open>setResults\<close> is applied to the ledger of the state
  it then finds.
\<close>

function generateLoop ::
  "('n::zero) runtime \<Rightarrow> 'n world \<Rightarrow> App \<Rightarrow> (nat \<Rightarrow> event list) \<Rightarrow> nat \<Rightarrow> App
     \<Rightarrow> (effect list \<times> App) list" where
  "generateLoop rt w s events i current =
     (if i < length (files s)
      then (let arrived = fold handleEvent (events i) current;
                step = iteration rt w s i (results arrived);
                next = arrived\<lparr> results := snd step \<rparr>
            in (fst step, next) # generateLoop rt w s events (Suc i) next)
      else [])"
  by pat_completeness auto
termination
  by (relation "measure (\<lambda>(rt, w, s, events, i, current). length (files s) - i)") auto

declare generateLoop.simps [simp del]

text \<open>
  A batch once the precondition holds (lines 89 to 132), amid the events of other
  controls. \<open>begun\<close> is the state after the ledger is created, \<open>during\<close> the states while
  the batch runs (\<open>begun\<close>, then one state after each file), and \<open>runBatchAmid\<close> gives
  all the states, the last one with \<open>isProcessing\<close> false, and the effects.
\<close>

definition begun :: "App \<Rightarrow> App" where
  "begun s = s\<lparr> isProcessing := True, globalError := [], results := initialResults (files s) \<rparr>"

definition during ::
  "('n::zero) runtime \<Rightarrow> 'n world \<Rightarrow> App \<Rightarrow> (nat \<Rightarrow> event list) \<Rightarrow> App list" where
  "during rt w s events = begun s # map snd (generateLoop rt w s events 0 (begun s))"

definition runBatchAmid ::
  "('n::zero) runtime \<Rightarrow> 'n world \<Rightarrow> App \<Rightarrow> (nat \<Rightarrow> event list)
     \<Rightarrow> App list \<times> effect list" where
  "runBatchAmid rt w s events =
     (during rt w s events @ [(last (during rt w s events))\<lparr> isProcessing := False \<rparr>],
      concat (map fst (generateLoop rt w s events 0 (begun s))))"

definition handleGenerateAmid ::
  "('n::zero) runtime \<Rightarrow> 'n world \<Rightarrow> App \<Rightarrow> (nat \<Rightarrow> event list)
     \<Rightarrow> App list \<times> effect list" where
  "handleGenerateAmid rt w s events =
     (if length (files s) = 0 \<or> trim (prompt s) = []
      then ([s\<lparr> globalError := selectNotice \<rparr>], [])
      else runBatchAmid rt w s events)"

text \<open>A batch, and a call of \<open>handleGenerate\<close>, during which no other event arrives.\<close>

definition runBatch ::
  "('n::zero) runtime \<Rightarrow> 'n world \<Rightarrow> App \<Rightarrow> App list \<times> effect list" where
  "runBatch rt w s = runBatchAmid rt w s (\<lambda>i. [])"

definition handleGenerate ::
  "('n::zero) runtime \<Rightarrow> 'n world \<Rightarrow> App \<Rightarrow> App list \<times> effect list" where
  "handleGenerate rt w s = handleGenerateAmid rt w s (\<lambda>i. [])"

text \<open>
  Modelled from the spec: the archive collaborator (JSZip, loaded from a CDN) accepts a
  mapping of output file name to text content (section 6); its \<^verbatim>\<open>file(name, data)\<close>
  adds a file or replaces the file of that name. The files are kept in the order in which
  their names were first added. (The names are base names, without a slash, so no folder
  is made.)
\<close>

fun zipFile ::
  "(jsstring \<times> jsstring) list \<Rightarrow> jsstring \<Rightarrow> jsstring \<Rightarrow> (jsstring \<times> jsstring) list" where
  "zipFile [] path data = [(path, data)]"
| "zipFile (f # fs) path data =
     (if fst f = path then (path, data) # fs else f # zipFile fs path data)"

text \<open>
  The export: the state after it, and what is handed to the browser: the files of the
  archive after the \<^verbatim>\<open>zip.file\<close> calls of the \<^verbatim>\<open>forEach\<close>, and the name of the
  download.
\<close>

record download =
  zipFiles :: "(jsstring \<times> jsstring) list"
  downloadName :: jsstring

definition noSummaries :: jsstring where
  "noSummaries = js ''No successful summaries to download.''"

definition handleDownloadZip :: "App \<Rightarrow> App \<times> download option" where
  "handleDownloadZip s =
     (let successfulResults = filter (\<lambda>r. status r = SUCCESS) (results s)
      in if length successfulResults = 0
         then (s\<lparr> globalError := noSummaries \<rparr>, None)
         else (s, Some \<lparr> zipFiles =
                           foldl (\<lambda>zip result.
                                    zipFile zip (replace (fileName result) (js ''.pdf'') (js ''.txt''))
                                      (content result))
                             [] successfulResults,
                         downloadName = js ''pdf_summaries.zip'' \<rparr>))"

definition isReadyToGenerate :: "App \<Rightarrow> bool" where
  "isReadyToGenerate s =
     (if length (files s) = 0 \<or> trim (prompt s) = [] then False
      else if apiProvider s = Gemini then \<not> apiKeyMissing s
      else apiKey (volcanoCreds s) \<noteq> [])"

definition allDone :: "App \<Rightarrow> bool" where
  "allDone s \<longleftrightarrow> length (results s) > 0 \<and> \<not> isProcessing s"


section \<open>What a batch leaves in the ledger\<close>

text \<open>
  The entry of file \<open>i\<close> once its iteration has run, the ledger after the first \<open>j\<close>
  iterations, and the ledger when \<open>handleGenerate\<close> has returned.
\<close>

definition settle :: "('n::zero) runtime \<Rightarrow> 'n world \<Rightarrow> App \<Rightarrow> nat \<Rightarrow> SummaryResult \<Rightarrow> SummaryResult" where
  "settle rt w s i res =
     (case fst (tryFile rt w s i) of
        Inr summary \<Rightarrow> res\<lparr> status := SUCCESS, content := summary \<rparr>
      | Inl e \<Rightarrow> res\<lparr> status := ERROR, error := Some (catchMessage e) \<rparr>)"

definition ledgerAfter :: "('n::zero) runtime \<Rightarrow> 'n world \<Rightarrow> App \<Rightarrow> nat \<Rightarrow> SummaryResult list" where
  "ledgerAfter rt w s j =
     map (\<lambda>k. if k < j then settle rt w s k (initialResults (files s) ! k)
              else initialResults (files s) ! k) [0..<length (files s)]"

definition finalLedger :: "('n::zero) runtime \<Rightarrow> 'n world \<Rightarrow> App \<Rightarrow> SummaryResult list" where
  "finalLedger rt w s = results (last (fst (handleGenerate rt w s)))"


section \<open>Response bodies by JSON path\<close>

text \<open>
  The value at a path of property names (\<^verbatim>\<open>undefined\<close> where a step is missing), the
  completion choices of a body, and whether a choice has message content that is not
  empty (not falsy).
\<close>

fun atPath :: "'n jsval \<Rightarrow> jsstring list \<Rightarrow> 'n jsval" where
  "atPath v [] = v"
| "atPath (JObj kvs) (p # ps) = (case map_of kvs p of Some v \<Rightarrow> atPath v ps | None \<Rightarrow> JUndefined)"
| "atPath v (p # ps) = JUndefined"

definition choicesOf :: "'n jsval \<Rightarrow> 'n jsval list" where
  "choicesOf data = (case atPath data [js ''choices''] of JArr cs \<Rightarrow> cs | _ \<Rightarrow> [])"

definition hasContent :: "('n::zero) jsval \<Rightarrow> bool" where
  "hasContent choice = truthy (atPath choice [js ''message'', js ''content''])"


section \<open>Sample data\<close>

text \<open>
  A runtime with integers as numbers and fault messages in the style of V8; a selection of
  two PDF files, each with the text \<^verbatim>\<open>Hello world\<close> on one page; a few behaviours of
  the Gemini SDK and of the network; a selection of two files of the same name; a
  selection of files that arrives while the second file of a batch is processed; ledgers
  given by file names and statuses.
\<close>

fun sampleToString :: "int jsval \<Rightarrow> jsstring" where
  "sampleToString JUndefined = js ''undefined''"
| "sampleToString JNull = js ''null''"
| "sampleToString (JBool b) = (if b then js ''true'' else js ''false'')"
| "sampleToString (JNum n) = showInt n"
| "sampleToString (JStr s) = s"
| "sampleToString (JArr xs) = join (map (\<lambda>x. if nullish x then [] else sampleToString x) xs) (js '','')"
| "sampleToString (JObj kvs) = js ''[object Object]''"

definition sampleTypeError :: "int fault_site \<Rightarrow> jsstring" where
  "sampleTypeError site =
     (case site of
        ReadOf v p \<Rightarrow>
          js ''Cannot read properties of '' @ sampleToString v @ js '' (reading ''
          @ [0x27] @ p @ [0x27] @ js '')''
      | CallOf v p \<Rightarrow> p @ js '' is not a function'')"

definition sampleRuntime :: "int runtime" where
  "sampleRuntime = \<lparr> toString = sampleToString, typeErrorMessage = sampleTypeError \<rparr>"

definition pdfFile :: "string \<Rightarrow> File" where
  "pdfFile n = \<lparr> name = js n, lastModified = 1700000000000, type = js ''application/pdf'' \<rparr>"

definition sampleApp :: App where
  "sampleApp =
     \<lparr> files = [pdfFile ''a.pdf'', pdfFile ''b.pdf''],
       prompt = js ''Summarize'',
       apiProvider = Gemini,
       selectedModel = js ''gemini-2.5-flash'',
       volcanoCreds = \<lparr> apiKey = [] \<rparr>,
       results = [],
       isProcessing = False,
       globalError = [],
       apiKeyMissing = False \<rparr>"

definition sampleWorld :: "(nat \<Rightarrow> thrown + int jsval) \<Rightarrow> int world" where
  "sampleWorld reply =
     \<lparr> pdfjs = (\<lambda>i. Inr [Inr [js ''Hello'', js ''world'']]),
       gemini = (\<lambda>i modelName contents. reply i),
       network = (\<lambda>i request. Inl (ErrorObj (js ''Failed to fetch''))) \<rparr>"

definition sampleReply :: "nat \<Rightarrow> thrown + int jsval" where
  "sampleReply i = (if i = 0 then Inr (JStr (js ''Fine.'')) else Inr (JStr (js ''Error: xyz'')))"

definition emptyReply :: "nat \<Rightarrow> thrown + int jsval" where
  "emptyReply i = Inr (JStr [])"

definition unknownReply :: "nat \<Rightarrow> thrown + int jsval" where
  "unknownReply i = (if i = 0 then Inl NonError else Inr (JStr (js ''Fine.'')))"

definition reportReply :: "nat \<Rightarrow> thrown + int jsval" where
  "reportReply i = Inr (JStr (if i = 0 then js ''Summary A'' else js ''Summary B''))"

definition reportsApp :: App where
  "reportsApp =
     sampleApp\<lparr> files :=
       [\<lparr> name = js ''report.pdf'', lastModified = 1700000000000, type = js ''application/pdf'' \<rparr>,
        \<lparr> name = js ''report.pdf'', lastModified = 1700000086400, type = js ''application/pdf'' \<rparr>] \<rparr>"

definition lateSelection :: "nat \<Rightarrow> event list" where
  "lateSelection i = (if i = 1 then [FilesSelected (Some [pdfFile ''c.pdf''])] else [])"

definition sampleCreds :: VolcanoCredentials where
  "sampleCreds = \<lparr> apiKey = js ''key'' \<rparr>"

definition respond :: "nat \<Rightarrow> thrown + 'n jsval \<Rightarrow> http_request \<Rightarrow> thrown + 'n http_response" where
  "respond code body request = Inr \<lparr> statusCode = code, jsonBody = body \<rparr>"

definition exported :: "string \<Rightarrow> App" where
  "exported n =
     sampleApp\<lparr> results := [\<lparr> id' = js n @ js ''-1700000000000'', fileName = js n,
                              content = js ''Summary'', status = SUCCESS, error = None \<rparr>] \<rparr>"

definition ledgerOf :: "(string \<times> ProcessingStatus) list \<Rightarrow> App" where
  "ledgerOf entries =
     sampleApp\<lparr> results :=
       map (\<lambda>(n, st). \<lparr> id' = js n @ js ''-1700000000000'', fileName = js n,
                        content = (if st = SUCCESS then js ''Summary of '' @ js n else []),
                        status = st,
                        error = (if st = ERROR then Some (js ''Failed'') else None) \<rparr>) entries \<rparr>"


section \<open>The ledger during a batch\<close>

lemma length_setSuccess: "length (setSuccess i v prev) = length prev"
  by (simp add: setSuccess_def)

lemma length_setError: "length (setError i v prev) = length prev"
  by (simp add: setError_def)

lemma nth_setSuccess:
  "k < length prev \<Longrightarrow>
   setSuccess i v prev ! k = (if k = i then (prev ! k)\<lparr> status := SUCCESS, content := v \<rparr> else prev ! k)"
  by (simp add: setSuccess_def nth_enumerate_eq)

lemma nth_setError:
  "k < length prev \<Longrightarrow>
   setError i v prev ! k = (if k = i then (prev ! k)\<lparr> status := ERROR, error := Some v \<rparr> else prev ! k)"
  by (simp add: setError_def nth_enumerate_eq)

lemma length_iteration: "length (snd (iteration rt w s i prev)) = length prev"
  by (simp add: iteration_def Let_def length_setSuccess length_setError split: sum.splits)

lemma nth_iteration:
  "k < length prev \<Longrightarrow>
   snd (iteration rt w s i prev) ! k = (if k = i then settle rt w s i (prev ! k) else prev ! k)"
  by (simp add: iteration_def Let_def settle_def nth_setSuccess nth_setError split: sum.splits)

lemma length_generateLoop:
  "length (generateLoop rt w s events i current) = length (files s) - i"
proof (induction rt w s events i current rule: generateLoop.induct)
  case (1 rt w s events i current)
  show ?case
  proof (cases "i < length (files s)")
    case True
    with 1 show ?thesis
      by (subst generateLoop.simps) (simp add: Let_def)
  next
    case False
    then show ?thesis by (subst generateLoop.simps) simp
  qed
qed

lemma nth_generateLoop:
  assumes "\<And>i. events i = []" and "j < length (files s) - i"
  shows "\<exists>ledger.
     snd (generateLoop rt w s events i current ! j) = current\<lparr> results := ledger \<rparr>
     \<and> length ledger = length (results current)
     \<and> (\<forall>k < length (results current). ledger ! k =
          (if i \<le> k \<and> k \<le> i + j then settle rt w s k (results current ! k)
           else results current ! k))"
  using assms
proof (induction rt w s events i current arbitrary: j rule: generateLoop.induct)
  case (1 rt w s events i current)
  from "1.prems" have lt: "i < length (files s)" by simp
  from "1.prems" have quiet: "events i = []" by simp
  let ?step = "iteration rt w s i (results current)"
  let ?next = "current\<lparr> results := snd ?step \<rparr>"
  have unfold: "generateLoop rt w s events i current
      = (fst ?step, ?next) # generateLoop rt w s events (Suc i) ?next"
    using lt quiet by (subst generateLoop.simps) (simp add: Let_def)
  show ?case
  proof (cases j)
    case 0
    show ?thesis
      by (rule exI[of _ "snd ?step"]) (auto simp: unfold 0 length_iteration nth_iteration)
  next
    case (Suc j')
    with "1.prems" have j': "j' < length (files s) - Suc i" by simp
    have arrived: "current = fold handleEvent (events i) current"
      by (simp add: quiet)
    have step: "?step = iteration rt w s i (results (fold handleEvent (events i) current))"
      by (simp add: quiet)
    have "next": "?next = (fold handleEvent (events i) current)
        \<lparr> results := snd (iteration rt w s i (results (fold handleEvent (events i) current))) \<rparr>"
      by (simp add: quiet)
    from "1.IH"[OF lt refl refl "next"[symmetric, THEN sym] "1.prems"(1) j']
    obtain ledger where
      l1: "snd (generateLoop rt w s events (Suc i) ?next ! j') = ?next\<lparr> results := ledger \<rparr>"
      and l2: "length ledger = length (results ?next)"
      and l3: "\<forall>k < length (results ?next). ledger ! k =
          (if Suc i \<le> k \<and> k \<le> Suc i + j' then settle rt w s k (results ?next ! k)
           else results ?next ! k)"
      by (auto simp: quiet)
    show ?thesis
    proof (rule exI[of _ ledger], intro conjI allI impI)
      show "snd (generateLoop rt w s events i current ! j) = current\<lparr> results := ledger \<rparr>"
        using l1 by (simp add: unfold Suc)
      show "length ledger = length (results current)"
        using l2 by (simp add: length_iteration)
      fix k assume k: "k < length (results current)"
      with l3 have "ledger ! k =
          (if Suc i \<le> k \<and> k \<le> Suc i + j' then settle rt w s k (snd ?step ! k)
           else snd ?step ! k)"
        by (simp add: length_iteration)
      with k show "ledger ! k =
          (if i \<le> k \<and> k \<le> i + j then settle rt w s k (results current ! k)
           else results current ! k)"
        by (auto simp: nth_iteration Suc)
    qed
  qed
qed

lemma length_initialResults: "length (initialResults fs) = length fs"
  by (simp add: initialResults_def)

lemma nth_initialResults:
  "k < length fs \<Longrightarrow>
   initialResults fs ! k =
     \<lparr> id' = name (fs ! k) @ js ''-'' @ showInt (lastModified (fs ! k)), fileName = name (fs ! k),
       content = [], status = PROCESSING, error = None \<rparr>"
  by (simp add: initialResults_def)

lemma ledgerAfter_0: "ledgerAfter rt w s 0 = initialResults (files s)"
  by (rule nth_equalityI) (simp_all add: ledgerAfter_def length_initialResults)

lemma length_ledgerAfter: "length (ledgerAfter rt w s j) = length (files s)"
  by (simp add: ledgerAfter_def)

lemma nth_ledgerAfter:
  "k < length (files s) \<Longrightarrow>
   ledgerAfter rt w s j ! k =
     (if k < j then settle rt w s k (initialResults (files s) ! k)
      else initialResults (files s) ! k)"
  by (simp add: ledgerAfter_def)

lemma results_begun: "results (begun s) = initialResults (files s)"
  by (simp add: begun_def)

lemma loop_ledgerAfter:
  assumes "j < length (files s)"
  shows "snd (generateLoop rt w s (\<lambda>i. []) 0 (begun s) ! j)
           = (begun s)\<lparr> results := ledgerAfter rt w s (Suc j) \<rparr>"
proof -
  from assms have j: "j < length (files s) - 0" by simp
  from nth_generateLoop[of "\<lambda>i. []" j s 0 rt w "begun s", OF refl j]
  obtain ledger where
    l1: "snd (generateLoop rt w s (\<lambda>i. []) 0 (begun s) ! j) = (begun s)\<lparr> results := ledger \<rparr>"
    and l2: "length ledger = length (files s)"
    and l3: "\<forall>k < length (files s). ledger ! k =
        (if k \<le> j then settle rt w s k (initialResults (files s) ! k)
         else initialResults (files s) ! k)"
    by (auto simp: results_begun length_initialResults)
  have "ledger = ledgerAfter rt w s (Suc j)"
  proof (rule nth_equalityI)
    show "length ledger = length (ledgerAfter rt w s (Suc j))"
      by (simp add: l2 ledgerAfter_def)
    fix k assume "k < length ledger"
    with l2 l3 show "ledger ! k = ledgerAfter rt w s (Suc j) ! k"
      by (auto simp: ledgerAfter_def)
  qed
  with l1 show ?thesis by simp
qed

lemma length_during: "length (during rt w s events) = Suc (length (files s))"
  by (simp add: during_def length_generateLoop)

lemma during_nth:
  assumes "j \<le> length (files s)"
  shows "during rt w s (\<lambda>i. []) ! j = (begun s)\<lparr> results := ledgerAfter rt w s j \<rparr>"
proof (cases j)
  case 0
  then show ?thesis
    by (simp add: during_def begun_def ledgerAfter_0)
next
  case (Suc j')
  with assms have j': "j' < length (files s)" by simp
  then show ?thesis
    using loop_ledgerAfter[OF j', of rt w]
    by (simp add: during_def Suc length_generateLoop)
qed

lemma last_nth_Suc: "length xs = Suc n \<Longrightarrow> last xs = xs ! n"
  by (cases xs rule: rev_cases) (simp_all add: nth_append)

lemma last_during:
  "last (during rt w s (\<lambda>i. []))
     = (begun s)\<lparr> results := ledgerAfter rt w s (length (files s)) \<rparr>"
  by (simp add: last_nth_Suc[OF length_during] during_nth)

lemma length_runBatchAmid: "length (fst (runBatchAmid rt w s events)) = length (files s) + 2"
  by (simp add: runBatchAmid_def length_during)

lemma length_runBatch: "length (fst (runBatch rt w s)) = length (files s) + 2"
  by (simp add: runBatch_def length_runBatchAmid)

lemma runBatch_nth:
  "j \<le> length (files s) \<Longrightarrow>
   fst (runBatch rt w s) ! j = (begun s)\<lparr> results := ledgerAfter rt w s j \<rparr>"
  by (simp add: runBatch_def runBatchAmid_def nth_append length_during during_nth)

lemma runBatch_last:
  "last (fst (runBatch rt w s))
     = (begun s)\<lparr> results := ledgerAfter rt w s (length (files s)), isProcessing := False \<rparr>"
  by (simp add: runBatch_def runBatchAmid_def last_during)

lemma runBatch_final_nth:
  "fst (runBatch rt w s) ! Suc (length (files s)) = last (fst (runBatch rt w s))"
  using length_runBatch[of rt w s] by (simp add: last_nth_Suc)

lemma results_runBatch_nth:
  assumes "j < length (files s) + 2"
  shows "results (fst (runBatch rt w s) ! j) = ledgerAfter rt w s (min j (length (files s)))"
proof (cases "j \<le> length (files s)")
  case True
  then show ?thesis by (simp add: runBatch_nth min_def)
next
  case False
  with assms have "j = Suc (length (files s))" by simp
  then show ?thesis by (simp add: runBatch_final_nth runBatch_last)
qed

lemma fileName_settle: "fileName (settle rt w s i res) = fileName res"
  by (simp add: settle_def split: sum.splits)

lemma id_settle: "id' (settle rt w s i res) = id' res"
  by (simp add: settle_def split: sum.splits)

lemma status_settle:
  "status (settle rt w s i res) = (case fst (tryFile rt w s i) of Inr x \<Rightarrow> SUCCESS | Inl e \<Rightarrow> ERROR)"
  by (simp add: settle_def split: sum.splits)

lemma fileName_ledgerAfter: "map fileName (ledgerAfter rt w s j) = map name (files s)"
  by (rule nth_equalityI)
     (simp_all add: length_ledgerAfter nth_ledgerAfter fileName_settle nth_initialResults)

lemma id_ledgerAfter: "map id' (ledgerAfter rt w s j) = map id' (initialResults (files s))"
  by (rule nth_equalityI)
     (simp_all add: length_ledgerAfter length_initialResults nth_ledgerAfter id_settle)

lemma trim_blank: "trim s = [] \<longleftrightarrow> (\<forall>c \<in> set s. isWhiteSpace c)"
proof
  assume "trim s = []"
  then have all: "\<forall>c \<in> set (dropWhile isWhiteSpace s). isWhiteSpace c"
    by (simp add: trim_def)
  have "dropWhile isWhiteSpace s = []"
  proof (rule ccontr)
    assume ne: "dropWhile isWhiteSpace s \<noteq> []"
    then have "\<not> isWhiteSpace (hd (dropWhile isWhiteSpace s))"
      by (rule hd_dropWhile)
    moreover from ne have "hd (dropWhile isWhiteSpace s) \<in> set (dropWhile isWhiteSpace s)"
      by (rule hd_in_set)
    ultimately show False using all by blast
  qed
  then show "\<forall>c \<in> set s. isWhiteSpace c" by simp
next
  assume "\<forall>c \<in> set s. isWhiteSpace c"
  then have d: "dropWhile isWhiteSpace s = []" by simp
  show "trim s = []" unfolding trim_def d by simp
qed

lemma handleGenerate_runs:
  "files s \<noteq> [] \<Longrightarrow> trim (prompt s) \<noteq> [] \<Longrightarrow> handleGenerate rt w s = runBatch rt w s"
  by (simp add: handleGenerate_def handleGenerateAmid_def runBatch_def)

lemma handleGenerate_rejects:
  "files s = [] \<or> trim (prompt s) = [] \<Longrightarrow>
   handleGenerate rt w s = ([s\<lparr> globalError := selectNotice \<rparr>], [])"
  by (auto simp: handleGenerate_def handleGenerateAmid_def)

lemma finalLedger_nth:
  assumes "files s \<noteq> []" "trim (prompt s) \<noteq> []" "i < length (files s)"
  shows "finalLedger rt w s ! i = settle rt w s i (initialResults (files s) ! i)"
  using assms by (simp add: finalLedger_def handleGenerate_runs runBatch_last nth_ledgerAfter)

lemma length_finalLedger:
  assumes "files s \<noteq> []" "trim (prompt s) \<noteq> []"
  shows "length (finalLedger rt w s) = length (files s)"
  using assms by (simp add: finalLedger_def handleGenerate_runs runBatch_last length_ledgerAfter)

text \<open>
  An iteration keeps the number, the names and the identifiers of the entries of
  whatever ledger its update is applied to.
\<close>

lemma iteration_keeps_shape:
  "length (snd (iteration rt w s i prev)) = length prev
   \<and> map fileName (snd (iteration rt w s i prev)) = map fileName prev
   \<and> map id' (snd (iteration rt w s i prev)) = map id' prev"
proof (intro conjI)
  show len: "length (snd (iteration rt w s i prev)) = length prev"
    by (rule length_iteration)
  show "map fileName (snd (iteration rt w s i prev)) = map fileName prev"
    by (rule nth_equalityI) (simp_all add: len nth_iteration fileName_settle)
  show "map id' (snd (iteration rt w s i prev)) = map id' prev"
    by (rule nth_equalityI) (simp_all add: len nth_iteration id_settle)
qed

text \<open>
  The sample batch: the extracted text, the prompt, and what the \<^verbatim>\<open>try\<close> block of a
  file yields for a given behaviour of the Gemini SDK.
\<close>

lemma sample_files: "files sampleApp = [pdfFile ''a.pdf'', pdfFile ''b.pdf'']"
  by (simp add: sampleApp_def)

lemma sample_text:
  "parsePdf (pdfjs (sampleWorld reply) i) = Inr (js ''Hello world'' @ [0x0A, 0x0A])"
  by (simp add: sampleWorld_def parsePdf_def js_def)

lemma not_ws_H: "\<not> isWhiteSpace 72"
  by (simp add: isWhiteSpace_def)

lemma sample_text_not_blank: "trim (js ''Hello world'' @ [0x0A, 0x0A]) \<noteq> []"
  by (simp add: trim_blank js_def not_ws_H)

lemma sample_prompt_not_blank: "trim (js ''Summarize'') \<noteq> []"
  by (simp add: trim_blank js_def isWhiteSpace_def)

lemma sample_batch_starts: "files sampleApp \<noteq> []" "trim (prompt sampleApp) \<noteq> []"
  using sample_prompt_not_blank by (simp_all add: sampleApp_def)

lemma sample_tryFile:
  "fst (tryFile sampleRuntime (sampleWorld reply) sampleApp i)
     = (case reply i of
          Inr summary \<Rightarrow> checkSummary sampleRuntime summary
        | Inl (ErrorObj m) \<Rightarrow> checkSummary sampleRuntime (JStr (geminiFailure m))
        | Inl NonError \<Rightarrow> checkSummary sampleRuntime (JStr geminiUnknown))"
proof -
  have g: "gemini (sampleWorld reply) i m p = reply i" for m p
    by (simp add: sampleWorld_def)
  have a: "apiProvider sampleApp = Gemini"
    by (simp add: sampleApp_def)
  show ?thesis
    by (simp add: tryFile_def sample_text sample_text_not_blank Let_def callModel_def
        generateSummaryFromText_def g a split: sum.splits thrown.splits)
qed

lemma sample_call:
  "fst (callModel sampleRuntime (sampleWorld sampleReply) sampleApp i p) = sampleReply i"
  by (simp add: callModel_def sampleApp_def sampleWorld_def generateSummaryFromText_def
      sampleReply_def)

text \<open>
  A batch during which no other event arrives. In every state of it (the state after
  the ledger is created, the state after each file, the state after the loop) the ledger
  has one entry for each selected file, with the names and identifiers of the selection
  in its order, also for an empty selection. Entry \<open>k\<close> is PROCESSING in the states up to
  the one before file \<open>k\<close> is done, and from the state after file \<open>k\<close> on it is one and
  the same entry, with status SUCCESS or ERROR.
\<close>

theorem ledger_throughout_batch:
  assumes T: "T = fst (runBatch rt w s)" and N: "N = length (files s)"
  shows "length T = N + 2
       \<and> (\<forall>j < length T. length (results (T ! j)) = N
                         \<and> map fileName (results (T ! j)) = map name (files s)
                         \<and> map id' (results (T ! j)) = map id' (initialResults (files s)))
       \<and> (\<forall>j < length T. \<forall>k < N.
            (j \<le> k \<longrightarrow> status (results (T ! j) ! k) = PROCESSING)
          \<and> (k < j \<longrightarrow> status (results (T ! j) ! k) \<in> {SUCCESS, ERROR}
                      \<and> results (T ! j) ! k = results (T ! Suc k) ! k))"
proof (intro conjI allI impI)
  show len: "length T = N + 2"
    by (simp add: T N length_runBatch)
  {
    fix j assume "j < length T"
    with len have j: "j < length (files s) + 2" by (simp add: N)
    show "length (results (T ! j)) = N"
      by (simp add: T N results_runBatch_nth[OF j] length_ledgerAfter)
    show "map fileName (results (T ! j)) = map name (files s)"
      by (simp add: T results_runBatch_nth[OF j] fileName_ledgerAfter)
    show "map id' (results (T ! j)) = map id' (initialResults (files s))"
      by (simp add: T results_runBatch_nth[OF j] id_ledgerAfter)
  }
  {
    fix j k assume "j < length T" and k: "k < N"
    with len have j: "j < length (files s) + 2" by (simp add: N)
    from k have k': "k < length (files s)" by (simp add: N)
    {
      assume "j \<le> k"
      then show "status (results (T ! j) ! k) = PROCESSING"
        using k' by (simp add: T results_runBatch_nth[OF j] nth_ledgerAfter nth_initialResults)
    }
    {
      assume kj: "k < j"
      then show "status (results (T ! j) ! k) \<in> {SUCCESS, ERROR}"
        using k' by (simp add: T results_runBatch_nth[OF j] nth_ledgerAfter status_settle
            split: sum.splits)
      from k' have sk: "Suc k < length (files s) + 2" by simp
      show "results (T ! j) ! k = results (T ! Suc k) ! k"
        using k' kj by (simp add: T results_runBatch_nth[OF j] results_runBatch_nth[OF sk]
            nth_ledgerAfter)
    }
  }
qed

theorem ledger_throughout_batch_witness:
  "length (fst (runBatch sampleRuntime (sampleWorld sampleReply) sampleApp)) = 4
   \<and> map fileName (results (fst (runBatch sampleRuntime (sampleWorld sampleReply) sampleApp) ! 1))
       = [js ''a.pdf'', js ''b.pdf'']
   \<and> status (results (fst (runBatch sampleRuntime (sampleWorld sampleReply) sampleApp) ! 1) ! 1)
       = PROCESSING
   \<and> status (results (fst (runBatch sampleRuntime (sampleWorld sampleReply) sampleApp) ! 2) ! 1)
       \<in> {SUCCESS, ERROR}
   \<and> results (fst (runBatch sampleRuntime (sampleWorld sampleReply) sampleApp) ! 3) ! 0
       = results (fst (runBatch sampleRuntime (sampleWorld sampleReply) sampleApp) ! 1) ! 0"
proof -
  let ?T = "fst (runBatch sampleRuntime (sampleWorld sampleReply) sampleApp)"
  note inst = ledger_throughout_batch[OF refl refl, of sampleRuntime "sampleWorld sampleReply" sampleApp]
  have N: "length (files sampleApp) = 2" by (simp add: sample_files)
  from inst N have len: "length ?T = 4" by simp
  from inst have shape: "\<And>j. j < length ?T \<Longrightarrow>
      map fileName (results (?T ! j)) = map name (files sampleApp)" by blast
  from inst have steps: "\<And>j k. j < length ?T \<Longrightarrow> k < length (files sampleApp) \<Longrightarrow>
      (j \<le> k \<longrightarrow> status (results (?T ! j) ! k) = PROCESSING)
    \<and> (k < j \<longrightarrow> status (results (?T ! j) ! k) \<in> {SUCCESS, ERROR}
                \<and> results (?T ! j) ! k = results (?T ! Suc k) ! k)" by blast
  have "map fileName (results (?T ! 1)) = [js ''a.pdf'', js ''b.pdf'']"
    using shape[of 1] len by (simp add: sample_files pdfFile_def)
  moreover have "status (results (?T ! 1) ! 1) = PROCESSING"
    using steps[of 1 1] len N by simp
  moreover have "status (results (?T ! 2) ! 1) \<in> {SUCCESS, ERROR}"
    using steps[of 2 1] len N by (simp add: numeral_2_eq_2)
  moreover have "results (?T ! 3) ! 0 = results (?T ! 1) ! 0"
    using steps[of 3 0] len N by (simp add: numeral_3_eq_3)
  ultimately show ?thesis using len by blast
qed

text \<open>
  The effects of a batch do not depend on the events that arrive: the loop runs over
  all the files of its selection.
\<close>

lemma fst_iteration: "fst (iteration rt w s i prev) = snd (tryFile rt w s i)"
  by (simp add: iteration_def Let_def)

lemma loop_effects:
  "map fst (generateLoop rt w s events i current)
     = map (\<lambda>k. snd (tryFile rt w s k)) [i..<length (files s)]"
proof (induction rt w s events i current rule: generateLoop.induct)
  case (1 rt w s events i current)
  show ?case
  proof (cases "i < length (files s)")
    case True
    with 1 show ?thesis
      by (subst generateLoop.simps) (simp add: Let_def fst_iteration upt_conv_Cons)
  next
    case False
    then show ?thesis by (subst generateLoop.simps) simp
  qed
qed

lemma effects_regardless_of_events:
  "snd (handleGenerateAmid rt w s events) = snd (handleGenerate rt w s)"
  by (simp add: handleGenerate_def handleGenerateAmid_def runBatchAmid_def loop_effects)

lemma generateLoop_step:
  "i < length (files s) \<Longrightarrow>
   generateLoop rt w s events i current
     = (fst (iteration rt w s i (results (fold handleEvent (events i) current))),
        (fold handleEvent (events i) current)
          \<lparr> results := snd (iteration rt w s i (results (fold handleEvent (events i) current))) \<rparr>)
       # generateLoop rt w s events (Suc i)
           ((fold handleEvent (events i) current)
              \<lparr> results := snd (iteration rt w s i (results (fold handleEvent (events i) current))) \<rparr>)"
  by (subst generateLoop.simps) (simp add: Let_def)

lemma generateLoop_end:
  "\<not> i < length (files s) \<Longrightarrow> generateLoop rt w s events i current = []"
  by (subst generateLoop.simps) simp

text \<open>
  Claim C7, at a batch of two files during which another folder is selected while the
  second file is processed. The file input, unlike the button that calls
  \<open>handleGenerate\<close>, is not disabled while a batch runs, and \<open>handleFileSelect\<close> empties
  the ledger. The ledger has two entries when the batch begins and after the first file,
  and none after the second file, with \<open>isProcessing\<close> still true, and none when the
  batch has ended; the batch itself goes on over both files of its selection.
\<close>

theorem selection_during_batch_empties_ledger:
  "length (fst (handleGenerateAmid sampleRuntime (sampleWorld sampleReply) sampleApp lateSelection)) = 4
   \<and> map status (results
        (fst (handleGenerateAmid sampleRuntime (sampleWorld sampleReply) sampleApp lateSelection) ! 0))
       = [PROCESSING, PROCESSING]
   \<and> map status (results
        (fst (handleGenerateAmid sampleRuntime (sampleWorld sampleReply) sampleApp lateSelection) ! 1))
       = [SUCCESS, PROCESSING]
   \<and> results
        (fst (handleGenerateAmid sampleRuntime (sampleWorld sampleReply) sampleApp lateSelection) ! 2)
       = []
   \<and> isProcessing
        (fst (handleGenerateAmid sampleRuntime (sampleWorld sampleReply) sampleApp lateSelection) ! 2)
   \<and> results
        (last (fst (handleGenerateAmid sampleRuntime (sampleWorld sampleReply) sampleApp lateSelection)))
       = []
   \<and> snd (handleGenerateAmid sampleRuntime (sampleWorld sampleReply) sampleApp lateSelection)
       = snd (handleGenerate sampleRuntime (sampleWorld sampleReply) sampleApp)"
proof -
  let ?rt = sampleRuntime and ?w = "sampleWorld sampleReply"
  let ?T = "fst (handleGenerateAmid ?rt ?w sampleApp lateSelection)"
  have n: "length (files sampleApp) = 2"
    by (simp add: sample_files)
  have t0: "fst (tryFile ?rt ?w sampleApp 0) = Inr (js ''Fine.'')"
    by (simp add: sample_tryFile sampleReply_def checkSummary_def js_def)
  have ev0: "lateSelection 0 = []" and ev1: "lateSelection (Suc 0) = [FilesSelected (Some [pdfFile ''c.pdf''])]"
    by (simp_all add: lateSelection_def)
  let ?s1 = "(begun sampleApp)\<lparr> results := setSuccess 0 (js ''Fine.'') (initialResults (files sampleApp)) \<rparr>"
  have it0: "snd (iteration ?rt ?w sampleApp 0 prev) = setSuccess 0 (js ''Fine.'') prev" for prev
    by (simp add: iteration_def Let_def t0)
  have sel: "results (handleFileSelect (Some [pdfFile ''c.pdf'']) st) = []" for st
    by (simp add: handleFileSelect_def Let_def)
  have it1: "snd (iteration ?rt ?w sampleApp (Suc 0) []) = []"
    using length_iteration[of ?rt ?w sampleApp "Suc 0" "[]"] by simp
  let ?s2 = "(handleFileSelect (Some [pdfFile ''c.pdf'']) ?s1)\<lparr> results := [] \<rparr>"
  have loop: "map snd (generateLoop ?rt ?w sampleApp lateSelection 0 (begun sampleApp)) = [?s1, ?s2]"
    by (simp add: generateLoop_step generateLoop_end n ev0 ev1 it0 it1 sel results_begun)
  have T: "?T = [begun sampleApp, ?s1, ?s2, ?s2\<lparr> isProcessing := False \<rparr>]"
    using sample_batch_starts
    by (simp add: handleGenerateAmid_def runBatchAmid_def during_def loop)
  have init: "map status (initialResults (files sampleApp)) = [PROCESSING, PROCESSING]"
    by (simp add: sample_files initialResults_def)
  have first: "map status (setSuccess 0 (js ''Fine.'') (initialResults (files sampleApp)))
      = [SUCCESS, PROCESSING]"
    by (simp add: sample_files initialResults_def setSuccess_def)
  have proc: "isProcessing ?s2"
    by (simp add: handleFileSelect_def Let_def begun_def)
  show ?thesis
    using init first proc effects_regardless_of_events[of ?rt ?w sampleApp lateSelection]
    by (simp add: T results_begun)
qed


section \<open>The precondition\<close>

text \<open>
  Claim C3. With no file selected, or with a prompt that consists of white space only,
  \<open>handleGenerate\<close> yields a single state, the old one with the notice set: the ledger
  and \<open>isProcessing\<close> are as before, and there is no effect (no file is parsed, no
  client is called).
\<close>

theorem generate_rejects_without_input:
  assumes "files s = [] \<or> (\<forall>c \<in> set (prompt s). isWhiteSpace c)"
  shows "handleGenerate rt w s
           = ([s\<lparr> globalError := js ''Please select a folder with PDFs and enter a prompt.'' \<rparr>], [])
       \<and> results (last (fst (handleGenerate rt w s))) = results s
       \<and> isProcessing (last (fst (handleGenerate rt w s))) = isProcessing s"
  using assms by (auto simp: handleGenerate_def handleGenerateAmid_def selectNotice_def trim_blank)

theorem generate_rejects_without_input_witness:
  "handleGenerate sampleRuntime (sampleWorld sampleReply) (sampleApp\<lparr> prompt := js ''   '' \<rparr>)
     = ([sampleApp\<lparr> prompt := js ''   '',
                    globalError := js ''Please select a folder with PDFs and enter a prompt.'' \<rparr>], [])
   \<and> handleGenerate sampleRuntime (sampleWorld sampleReply) (sampleApp\<lparr> files := [] \<rparr>)
     = ([sampleApp\<lparr> files := [],
                    globalError := js ''Please select a folder with PDFs and enter a prompt.'' \<rparr>], [])"
proof -
  have blank: "\<forall>c \<in> set (prompt (sampleApp\<lparr> prompt := js ''   '' \<rparr>)). isWhiteSpace c"
    by (simp add: js_def isWhiteSpace_def)
  have none: "files (sampleApp\<lparr> files := [] \<rparr>) = []"
    by simp
  show ?thesis
    using generate_rejects_without_input[OF disjI2, OF blank, of sampleRuntime "sampleWorld sampleReply"]
      generate_rejects_without_input[OF disjI1, OF none, of sampleRuntime "sampleWorld sampleReply"]
    by simp
qed


section \<open>The outcome of one file\<close>

text \<open>
  Claim C4. When the client selected for file \<open>i\<close> returns a text that begins with
  \<^verbatim>\<open>Error\<close>, entry \<open>i\<close> ends with status ERROR and that text as its error message.
\<close>

theorem error_marker_is_error:
  assumes "files s \<noteq> []" and "trim (prompt s) \<noteq> []" and "i < length (files s)"
    and "parsePdf (pdfjs w i) = Inr pdfText" and "trim pdfText \<noteq> []"
    and "fst (callModel rt w s i (constructFullPrompt pdfText (prompt s))) = Inr (JStr text)"
    and "startsWith text (js ''Error'')"
  shows "status (finalLedger rt w s ! i) = ERROR \<and> error (finalLedger rt w s ! i) = Some text"
proof -
  have "fst (tryFile rt w s i) = Inl (ErrorObj text)"
    using assms(4-7) by (simp add: tryFile_def Let_def checkSummary_def)
  then show ?thesis
    using assms(1-3) by (simp add: finalLedger_nth settle_def catchMessage_def)
qed

theorem error_marker_is_error_witness:
  "status (finalLedger sampleRuntime (sampleWorld sampleReply) sampleApp ! 1) = ERROR
   \<and> error (finalLedger sampleRuntime (sampleWorld sampleReply) sampleApp ! 1)
       = Some (js ''Error: xyz'')"
proof -
  have i: "1 < length (files sampleApp)" by (simp add: sample_files)
  have call: "fst (callModel sampleRuntime (sampleWorld sampleReply) sampleApp 1
              (constructFullPrompt (js ''Hello world'' @ [0x0A, 0x0A]) (prompt sampleApp)))
            = Inr (JStr (js ''Error: xyz''))"
    by (simp add: sample_call sampleReply_def)
  have marker: "startsWith (js ''Error: xyz'') (js ''Error'')"
    by (simp add: js_def)
  show ?thesis
    by (rule error_marker_is_error[OF sample_batch_starts i sample_text sample_text_not_blank
          call marker])
qed

text \<open>
  Claim C10. The Gemini client returns the text of the response as it is, and the only
  check of a returned text is whether it begins with \<^verbatim>\<open>Error\<close>: a text without the
  marker becomes the content of a SUCCESS entry, and so does the empty text.
\<close>

theorem summary_checked_for_marker_only:
  assumes "files s \<noteq> []" and "trim (prompt s) \<noteq> []" and "i < length (files s)"
    and "parsePdf (pdfjs w i) = Inr pdfText" and "trim pdfText \<noteq> []"
    and "apiProvider s = Gemini"
    and "gemini w i (selectedModel s) (constructFullPrompt pdfText (prompt s)) = Inr (JStr text)"
  shows "status (finalLedger rt w s ! i) = (if startsWith text (js ''Error'') then ERROR else SUCCESS)
       \<and> (\<not> startsWith text (js ''Error'') \<longrightarrow> content (finalLedger rt w s ! i) = text)
       \<and> (text = [] \<longrightarrow> status (finalLedger rt w s ! i) = SUCCESS
                        \<and> content (finalLedger rt w s ! i) = [])"
proof -
  have "fst (tryFile rt w s i)
          = (if startsWith text (js ''Error'') then Inl (ErrorObj text) else Inr text)"
    using assms(4-7)
    by (simp add: tryFile_def Let_def callModel_def generateSummaryFromText_def checkSummary_def)
  moreover have "\<not> startsWith [] (js ''Error'')"
    by (simp add: js_def)
  ultimately show ?thesis
    using assms(1-3) by (auto simp: finalLedger_nth settle_def nth_initialResults)
qed

theorem summary_checked_for_marker_only_witness:
  "status (finalLedger sampleRuntime (sampleWorld emptyReply) sampleApp ! 0) = SUCCESS
   \<and> content (finalLedger sampleRuntime (sampleWorld emptyReply) sampleApp ! 0) = []"
proof -
  have i: "0 < length (files sampleApp)" by (simp add: sample_files)
  have g: "apiProvider sampleApp = Gemini" by (simp add: sampleApp_def)
  have call: "gemini (sampleWorld emptyReply) 0 (selectedModel sampleApp)
                (constructFullPrompt (js ''Hello world'' @ [0x0A, 0x0A]) (prompt sampleApp))
              = Inr (JStr [])"
    by (simp add: sampleWorld_def emptyReply_def)
  show ?thesis
    using summary_checked_for_marker_only[OF sample_batch_starts i sample_text
        sample_text_not_blank g call, of sampleRuntime]
    by (simp add: js_def)
qed

text \<open>
  The ways a file fails, and the isolation of a failure: when the \<^verbatim>\<open>try\<close> block of file
  \<open>k\<close> throws and the blocks of all other files return a summary, entry \<open>k\<close> ends ERROR
  with the message of what was thrown, and every other entry ends SUCCESS.
\<close>

lemma tryFile_extraction_fault:
  "parsePdf (pdfjs w i) = Inl e \<Longrightarrow> fst (tryFile rt w s i) = Inl e"
  by (simp add: tryFile_def)

lemma tryFile_blank_text:
  "parsePdf (pdfjs w i) = Inr pdfText \<Longrightarrow> trim pdfText = [] \<Longrightarrow>
   fst (tryFile rt w s i) = Inl (ErrorObj noText)"
  by (simp add: tryFile_def)

lemma tryFile_marked_failure:
  "parsePdf (pdfjs w i) = Inr pdfText \<Longrightarrow> trim pdfText \<noteq> [] \<Longrightarrow>
   fst (callModel rt w s i (constructFullPrompt pdfText (prompt s))) = Inr (JStr text) \<Longrightarrow>
   startsWith text (js ''Error'') \<Longrightarrow>
   fst (tryFile rt w s i) = Inl (ErrorObj text)"
  by (simp add: tryFile_def Let_def checkSummary_def)

lemma failure_is_isolated:
  assumes "files s \<noteq> []" and "trim (prompt s) \<noteq> []" and "k < length (files s)"
    and "fst (tryFile rt w s k) = Inl e"
    and "\<forall>i < length (files s). i \<noteq> k \<longrightarrow> (\<exists>summary. fst (tryFile rt w s i) = Inr summary)"
  shows "length (finalLedger rt w s) = length (files s)
       \<and> (\<forall>i < length (files s). status (finalLedger rt w s ! i) = (if i = k then ERROR else SUCCESS))
       \<and> error (finalLedger rt w s ! k) = Some (catchMessage e)"
proof (intro conjI allI impI)
  show "length (finalLedger rt w s) = length (files s)"
    using assms(1,2) by (rule length_finalLedger)
  show "error (finalLedger rt w s ! k) = Some (catchMessage e)"
    using assms(1-4) by (simp add: finalLedger_nth settle_def)
  fix i assume i: "i < length (files s)"
  show "status (finalLedger rt w s ! i) = (if i = k then ERROR else SUCCESS)"
  proof (cases "i = k")
    case True
    with assms(1-4) show ?thesis by (simp add: finalLedger_nth status_settle)
  next
    case False
    with assms(5) i obtain summary where "fst (tryFile rt w s i) = Inr summary" by blast
    with assms(1,2) i False show ?thesis by (simp add: finalLedger_nth status_settle)
  qed
qed

text \<open>
  Claim C1, at a batch of two files where the Gemini SDK rejects the call for the first
  file with a value that is not an \<^verbatim>\<open>Error\<close>, and answers \<^verbatim>\<open>Fine.\<close> for the second:
  the client returns its failure text \<^verbatim>\<open>An unknown error occurred during summary
  generation.\<close>, which does not begin with \<^verbatim>\<open>Error\<close>, and the first entry ends SUCCESS
  with the failure text as its content and no error message.
\<close>

theorem unknown_failure_recorded_as_success:
  "fst (generateSummaryFromText (gemini (sampleWorld unknownReply) 0) fullPrompt modelName)
     = Inr (JStr (js ''An unknown error occurred during summary generation.''))
   \<and> map status (finalLedger sampleRuntime (sampleWorld unknownReply) sampleApp)
       = [SUCCESS, SUCCESS]
   \<and> content (finalLedger sampleRuntime (sampleWorld unknownReply) sampleApp ! 0)
       = js ''An unknown error occurred during summary generation.''
   \<and> error (finalLedger sampleRuntime (sampleWorld unknownReply) sampleApp ! 0) = None"
proof -
  let ?L = "finalLedger sampleRuntime (sampleWorld unknownReply) sampleApp"
  have client: "fst (generateSummaryFromText (gemini (sampleWorld unknownReply) 0) fullPrompt modelName)
     = Inr (JStr (js ''An unknown error occurred during summary generation.''))"
    by (simp add: generateSummaryFromText_def sampleWorld_def unknownReply_def geminiUnknown_def)
  have t0: "fst (tryFile sampleRuntime (sampleWorld unknownReply) sampleApp 0) = Inr geminiUnknown"
    by (simp add: sample_tryFile unknownReply_def checkSummary_def geminiUnknown_def js_def)
  have t1: "fst (tryFile sampleRuntime (sampleWorld unknownReply) sampleApp (Suc 0)) = Inr (js ''Fine.'')"
    by (simp add: sample_tryFile unknownReply_def checkSummary_def js_def)
  have len: "length ?L = 2"
    by (simp add: length_finalLedger sample_batch_starts sample_files)
  have e0: "?L ! 0 = (initialResults (files sampleApp) ! 0)\<lparr> status := SUCCESS, content := geminiUnknown \<rparr>"
    by (simp add: finalLedger_nth sample_batch_starts sample_files settle_def t0)
  have e1: "?L ! Suc 0 = (initialResults (files sampleApp) ! Suc 0)\<lparr> status := SUCCESS, content := js ''Fine.'' \<rparr>"
    by (simp add: finalLedger_nth sample_batch_starts sample_files settle_def t1)
  have "map status ?L = [SUCCESS, SUCCESS]"
    by (rule nth_equalityI) (auto simp: len e0 e1 less_Suc_eq numeral_2_eq_2)
  moreover have "content (?L ! 0) = js ''An unknown error occurred during summary generation.''"
    by (simp add: e0 geminiUnknown_def)
  moreover have "error (?L ! 0) = None"
    by (simp add: e0 sample_files nth_initialResults)
  ultimately show ?thesis using client by blast
qed


section \<open>The export\<close>

text \<open>
  Claim C2, at a SUCCESS entry for the file \<^verbatim>\<open>notes.pdf.v2.pdf\<close>: the name ends in
  \<^verbatim>\<open>.pdf\<close> and its stem is \<^verbatim>\<open>notes.pdf.v2\<close>, but the exported name is
  \<^verbatim>\<open>notes.txt.v2.pdf\<close>, since \<^verbatim>\<open>replace\<close> rewrites the first \<^verbatim>\<open>.pdf\<close> of the name.
\<close>

theorem first_pdf_occurrence_is_replaced:
  "snd (handleDownloadZip (exported ''notes.pdf.v2.pdf''))
     = Some \<lparr> zipFiles = [(js ''notes.txt.v2.pdf'', js ''Summary'')],
              downloadName = js ''pdf_summaries.zip'' \<rparr>"
  by (simp add: handleDownloadZip_def exported_def js_def)

text \<open>
  Where \<^verbatim>\<open>.pdf\<close> occurs in the name only as its suffix, the exported name is the stem
  followed by \<^verbatim>\<open>.txt\<close>.
\<close>

lemma startsWith_append: "startsWith (pat @ rest) pat"
  by (induction pat) simp_all

lemma replace_suffix:
  assumes "\<forall>k < length stem. \<not> startsWith (drop k (stem @ pat)) pat"
  shows "replace (stem @ pat) pat rep = stem @ rep"
  using assms
proof (induction stem)
  case Nil
  show ?case
    using startsWith_append[of pat "[]"] by (cases pat) simp_all
next
  case (Cons c stem)
  from Cons.prems have "\<not> startsWith (drop 0 ((c # stem) @ pat)) pat" by blast
  then have no: "\<not> startsWith (c # stem @ pat) pat" by simp
  have "\<forall>k < length stem. \<not> startsWith (drop k (stem @ pat)) pat"
  proof (intro allI impI)
    fix k assume "k < length stem"
    then have "Suc k < length (c # stem)" by simp
    with Cons.prems have "\<not> startsWith (drop (Suc k) ((c # stem) @ pat)) pat" by blast
    then show "\<not> startsWith (drop k (stem @ pat)) pat" by simp
  qed
  with Cons.IH have "replace (stem @ pat) pat rep = stem @ rep" by blast
  with no show ?case by simp
qed

text \<open>
  The control of the export: \<open>isProcessing\<close> is true in every state of a batch before
  the last one, whatever events arrive, so that \<open>allDone\<close> is false; after a batch
  during which no event arrives, \<open>allDone\<close> is true.
\<close>

lemma handleEvent_isProcessing: "isProcessing (handleEvent ev st) = isProcessing st"
  by (cases ev) (simp_all add: handleFileSelect_def Let_def split: option.splits)

lemma fold_handleEvent_isProcessing: "isProcessing (fold handleEvent evs st) = isProcessing st"
  by (induction evs arbitrary: st) (simp_all add: handleEvent_isProcessing)

lemma generateLoop_isProcessing:
  "step \<in> set (generateLoop rt w s events i current) \<Longrightarrow>
   isProcessing (snd step) = isProcessing current"
proof (induction rt w s events i current rule: generateLoop.induct)
  case (1 rt w s events i current)
  show ?case
  proof (cases "i < length (files s)")
    case True
    let ?arrived = "fold handleEvent (events i) current"
    let ?next = "?arrived\<lparr> results := snd (iteration rt w s i (results ?arrived)) \<rparr>"
    from "1.prems" True
    consider "snd step = ?next" | "step \<in> set (generateLoop rt w s events (Suc i) ?next)"
      by (subst (asm) generateLoop.simps) (auto simp: Let_def)
    then show ?thesis
    proof cases
      case 1
      then show ?thesis by (simp add: fold_handleEvent_isProcessing)
    next
      case 2
      from "1.IH"[OF True refl refl refl 2] show ?thesis
        by (simp add: fold_handleEvent_isProcessing)
    qed
  next
    case False
    with "1.prems" show ?thesis
      by (subst (asm) generateLoop.simps) simp
  qed
qed

lemma during_processing:
  assumes "st \<in> set (during rt w s events)"
  shows "isProcessing st"
proof -
  from assms consider "st = begun s"
    | step where "step \<in> set (generateLoop rt w s events 0 (begun s))" "st = snd step"
    by (auto simp: during_def)
  then show ?thesis
  proof cases
    case 1
    then show ?thesis by (simp add: begun_def)
  next
    case 2
    with generateLoop_isProcessing[OF 2(1)] show ?thesis by (simp add: begun_def)
  qed
qed

lemma butlast_runBatchAmid: "butlast (fst (runBatchAmid rt w s events)) = during rt w s events"
  by (simp add: runBatchAmid_def)

lemma export_control_hidden_during_batch:
  assumes "st \<in> set (butlast (fst (handleGenerateAmid rt w s events)))"
  shows "isProcessing st \<and> \<not> allDone st"
proof -
  from assms have "st \<in> set (during rt w s events)"
    by (cases "length (files s) = 0 \<or> trim (prompt s) = []")
       (simp_all add: handleGenerateAmid_def butlast_runBatchAmid)
  then have "isProcessing st" by (rule during_processing)
  then show ?thesis by (simp add: allDone_def)
qed

lemma export_control_shown_after_batch:
  assumes "files s \<noteq> []" and "trim (prompt s) \<noteq> []"
  shows "allDone (last (fst (handleGenerate rt w s)))"
  using assms by (simp add: handleGenerate_runs runBatch_last allDone_def length_ledgerAfter)

text \<open>
  The export of a ledger without a SUCCESS entry sets the notice and produces no
  archive. Where the exported names of the SUCCESS entries differ from each other, the
  archive has one file for each SUCCESS entry, in the order of the ledger and with the
  content of the entry, and no other file.
\<close>

lemma export_without_success:
  assumes "filter (\<lambda>r. status r = SUCCESS) (results s) = []"
  shows "handleDownloadZip s
      = (s\<lparr> globalError := js ''No successful summaries to download.'' \<rparr>, None)"
  using assms by (simp add: handleDownloadZip_def Let_def noSummaries_def)

lemma zipFile_fresh:
  "path \<notin> fst ` set added \<Longrightarrow> zipFile added path data = added @ [(path, data)]"
  by (induction added) auto

lemma foldl_zipFile_distinct:
  "distinct (map fst added @ map pathOf rs) \<Longrightarrow>
   foldl (\<lambda>zip r. zipFile zip (pathOf r) (dataOf r)) added rs
     = added @ map (\<lambda>r. (pathOf r, dataOf r)) rs"
proof (induction rs arbitrary: added)
  case Nil
  show ?case by simp
next
  case (Cons r rs)
  from Cons.prems have fresh: "pathOf r \<notin> fst ` set added" by auto
  from Cons.prems have "distinct (map fst (added @ [(pathOf r, dataOf r)]) @ map pathOf rs)"
    by auto
  from Cons.IH[OF this] show ?case
    by (simp add: zipFile_fresh[OF fresh])
qed

lemma export_of_distinct_names:
  assumes "filter (\<lambda>r. status r = SUCCESS) (results s) \<noteq> []"
    and "distinct (map (\<lambda>r. replace (fileName r) (js ''.pdf'') (js ''.txt''))
                     (filter (\<lambda>r. status r = SUCCESS) (results s)))"
  shows "handleDownloadZip s
      = (s, Some \<lparr> zipFiles =
                     map (\<lambda>r. (replace (fileName r) (js ''.pdf'') (js ''.txt''), content r))
                       (filter (\<lambda>r. status r = SUCCESS) (results s)),
                   downloadName = js ''pdf_summaries.zip'' \<rparr>)"
  using assms foldl_zipFile_distinct[of "[]"
      "\<lambda>r. replace (fileName r) (js ''.pdf'') (js ''.txt'')"
      "filter (\<lambda>r. status r = SUCCESS) (results s)" content]
  by (simp add: handleDownloadZip_def Let_def)

lemma tryFile_files: "tryFile rt w (s\<lparr> files := fs \<rparr>) i = tryFile rt w s i"
  by (simp add: tryFile_def callModel_def Let_def split: sum.splits)

text \<open>
  Claim C8, at the ledger that a batch leaves for a selection with two files of the name
  \<^verbatim>\<open>report.pdf\<close> (from two folders; the name of a \<^verbatim>\<open>File\<close> is its base name). Both
  entries are SUCCESS, with the summaries A and B, and the archive of the export holds
  one file, \<^verbatim>\<open>report.txt\<close> with summary B: the second \<^verbatim>\<open>zip.file\<close> call replaces
  the file of the first, and summary A is not exported.
\<close>

theorem same_name_summary_is_lost:
  "map fileName (finalLedger sampleRuntime (sampleWorld reportReply) reportsApp)
     = [js ''report.pdf'', js ''report.pdf'']
   \<and> map status (finalLedger sampleRuntime (sampleWorld reportReply) reportsApp)
       = [SUCCESS, SUCCESS]
   \<and> map content (finalLedger sampleRuntime (sampleWorld reportReply) reportsApp)
       = [js ''Summary A'', js ''Summary B'']
   \<and> snd (handleDownloadZip
            (last (fst (handleGenerate sampleRuntime (sampleWorld reportReply) reportsApp))))
       = Some \<lparr> zipFiles = [(js ''report.txt'', js ''Summary B'')],
                downloadName = js ''pdf_summaries.zip'' \<rparr>"
proof -
  let ?L = "finalLedger sampleRuntime (sampleWorld reportReply) reportsApp"
  have starts: "files reportsApp \<noteq> []" "trim (prompt reportsApp) \<noteq> []"
    using sample_prompt_not_blank by (simp_all add: reportsApp_def sampleApp_def)
  have n: "length (files reportsApp) = 2"
    by (simp add: reportsApp_def)
  have attempt: "fst (tryFile sampleRuntime (sampleWorld reportReply) reportsApp i)
      = Inr (if i = 0 then js ''Summary A'' else js ''Summary B'')" for i
    by (simp add: reportsApp_def tryFile_files sample_tryFile reportReply_def checkSummary_def js_def)
  have len: "length ?L = 2"
    by (simp add: length_finalLedger starts n)
  have e0: "?L ! 0 = (initialResults (files reportsApp) ! 0)
      \<lparr> status := SUCCESS, content := js ''Summary A'' \<rparr>"
    using finalLedger_nth[OF starts, of 0 sampleRuntime "sampleWorld reportReply"]
    by (simp add: n settle_def attempt)
  have e1: "?L ! Suc 0 = (initialResults (files reportsApp) ! Suc 0)
      \<lparr> status := SUCCESS, content := js ''Summary B'' \<rparr>"
    using finalLedger_nth[OF starts, of "Suc 0" sampleRuntime "sampleWorld reportReply"]
    by (simp add: n settle_def attempt)
  have L: "?L = [(initialResults (files reportsApp) ! 0)\<lparr> status := SUCCESS, content := js ''Summary A'' \<rparr>,
                 (initialResults (files reportsApp) ! Suc 0)\<lparr> status := SUCCESS, content := js ''Summary B'' \<rparr>]"
    by (rule nth_equalityI) (auto simp: len e0 e1 less_Suc_eq numeral_2_eq_2)
  have names: "fileName (initialResults (files reportsApp) ! 0) = js ''report.pdf''"
    "fileName (initialResults (files reportsApp) ! Suc 0) = js ''report.pdf''"
    by (simp_all add: reportsApp_def initialResults_def)
  have renamed: "replace (js ''report.pdf'') (js ''.pdf'') (js ''.txt'') = js ''report.txt''"
    by (simp add: js_def)
  have "snd (handleDownloadZip
            (last (fst (handleGenerate sampleRuntime (sampleWorld reportReply) reportsApp))))
       = Some \<lparr> zipFiles = [(js ''report.txt'', js ''Summary B'')],
                downloadName = js ''pdf_summaries.zip'' \<rparr>"
    using L by (simp add: finalLedger_def handleDownloadZip_def Let_def names renamed)
  moreover have "map fileName ?L = [js ''report.pdf'', js ''report.pdf'']"
    by (simp add: L names)
  moreover have "map status ?L = [SUCCESS, SUCCESS]"
    by (simp add: L)
  moreover have "map content ?L = [js ''Summary A'', js ''Summary B'']"
    by (simp add: L)
  ultimately show ?thesis by blast
qed


section \<open>The lifetime of the ledger\<close>

lemma callModel_results: "callModel rt w (s\<lparr> results := old \<rparr>) i p = callModel rt w s i p"
  by (simp add: callModel_def)

lemma tryFile_results: "tryFile rt w (s\<lparr> results := old \<rparr>) i = tryFile rt w s i"
  by (simp add: tryFile_def callModel_results Let_def split: sum.splits)

lemma iteration_results: "iteration rt w (s\<lparr> results := old \<rparr>) i prev = iteration rt w s i prev"
  by (simp add: iteration_def tryFile_results)

lemma generateLoop_results:
  "generateLoop rt w (s\<lparr> results := old \<rparr>) events i current
     = generateLoop rt w s events i current"
proof (induction rt w s events i current rule: generateLoop.induct)
  case (1 rt w s events i current)
  show ?case
  proof (cases "i < length (files s)")
    case True
    with 1 show ?thesis
      by (subst generateLoop.simps, subst (2) generateLoop.simps)
         (simp add: Let_def iteration_results)
  next
    case False
    then show ?thesis
      by (subst generateLoop.simps, subst (2) generateLoop.simps) simp
  qed
qed

lemma runBatch_results: "runBatch rt w (s\<lparr> results := old \<rparr>) = runBatch rt w s"
  by (simp add: runBatch_def runBatchAmid_def during_def begun_def generateLoop_results)

text \<open>
  Claim C9, as amended. The export and a rejected \<open>handleGenerate\<close> leave the ledger
  as it is. A selection of files empties the ledger at once, whether or not a batch is
  started afterwards. A batch that starts does not depend on the old ledger: it replaces
  the ledger by one entry for each selected file, and ends with exactly these entries.
\<close>

theorem ledger_replaced_wholesale:
  "results (fst (handleDownloadZip s)) = results s
   \<and> handleFileSelect None s = s
   \<and> results (handleFileSelect (Some allFiles) s) = []
   \<and> (files s = [] \<or> trim (prompt s) = [] \<longrightarrow>
        (\<forall>st \<in> set (fst (handleGenerate rt w s)). results st = results s))
   \<and> (files s \<noteq> [] \<and> trim (prompt s) \<noteq> [] \<longrightarrow>
        handleGenerate rt w (s\<lparr> results := old \<rparr>) = handleGenerate rt w s
      \<and> results (hd (fst (handleGenerate rt w s))) = initialResults (files s)
      \<and> length (finalLedger rt w s) = length (files s)
      \<and> (\<forall>i < length (files s). id' (finalLedger rt w s ! i) = id' (initialResults (files s) ! i)))"
proof (intro conjI impI allI ballI)
  show "results (fst (handleDownloadZip s)) = results s"
    by (simp add: handleDownloadZip_def Let_def)
  show "handleFileSelect None s = s"
    by (simp add: handleFileSelect_def)
  show "results (handleFileSelect (Some allFiles) s) = []"
    by (simp add: handleFileSelect_def Let_def)
next
  fix st assume "files s = [] \<or> trim (prompt s) = []" "st \<in> set (fst (handleGenerate rt w s))"
  then show "results st = results s"
    by (auto simp: handleGenerate_rejects)
next
  assume starts: "files s \<noteq> [] \<and> trim (prompt s) \<noteq> []"
  then show "handleGenerate rt w (s\<lparr> results := old \<rparr>) = handleGenerate rt w s"
    by (simp add: handleGenerate_runs runBatch_results)
  from starts show "results (hd (fst (handleGenerate rt w s))) = initialResults (files s)"
    by (simp add: handleGenerate_runs runBatch_def runBatchAmid_def during_def begun_def)
  from starts show "length (finalLedger rt w s) = length (files s)"
    by (simp add: length_finalLedger)
  fix i assume "i < length (files s)"
  with starts show "id' (finalLedger rt w s ! i) = id' (initialResults (files s) ! i)"
    by (simp add: finalLedger_nth settle_def split: sum.splits)
qed

theorem ledger_replaced_wholesale_witness:
  "results (fst (handleDownloadZip (ledgerOf [(''old.pdf'', SUCCESS)])))
     = results (ledgerOf [(''old.pdf'', SUCCESS)])
   \<and> results (handleFileSelect (Some [pdfFile ''c.pdf'']) (ledgerOf [(''old.pdf'', SUCCESS)])) = []
   \<and> handleGenerate sampleRuntime (sampleWorld sampleReply) (ledgerOf [(''old.pdf'', SUCCESS)])
       = handleGenerate sampleRuntime (sampleWorld sampleReply) sampleApp
   \<and> length (finalLedger sampleRuntime (sampleWorld sampleReply) sampleApp) = 2
   \<and> results (last (fst (handleGenerate sampleRuntime (sampleWorld sampleReply)
                           (sampleApp\<lparr> files := [] \<rparr>)))) = []"
proof -
  note a = ledger_replaced_wholesale[of "ledgerOf [(''old.pdf'', SUCCESS)]" "[pdfFile ''c.pdf'']"
      sampleRuntime "sampleWorld sampleReply"]
  note b = ledger_replaced_wholesale[of sampleApp _ sampleRuntime "sampleWorld sampleReply"
      "results (ledgerOf [(''old.pdf'', SUCCESS)])"]
  note c = ledger_replaced_wholesale[of "sampleApp\<lparr> files := [] \<rparr>" _ sampleRuntime
      "sampleWorld sampleReply"]
  have old: "ledgerOf [(''old.pdf'', SUCCESS)]
      = sampleApp\<lparr> results := results (ledgerOf [(''old.pdf'', SUCCESS)]) \<rparr>"
    by (simp add: ledgerOf_def)
  have w1: "results (fst (handleDownloadZip (ledgerOf [(''old.pdf'', SUCCESS)])))
     = results (ledgerOf [(''old.pdf'', SUCCESS)])"
    using a by blast
  have w2: "results (handleFileSelect (Some [pdfFile ''c.pdf'']) (ledgerOf [(''old.pdf'', SUCCESS)])) = []"
    using a by blast
  have w3: "handleGenerate sampleRuntime (sampleWorld sampleReply) (ledgerOf [(''old.pdf'', SUCCESS)])
       = handleGenerate sampleRuntime (sampleWorld sampleReply) sampleApp"
    using b sample_batch_starts by (subst old) blast
  have w4: "length (finalLedger sampleRuntime (sampleWorld sampleReply) sampleApp) = 2"
    using b sample_batch_starts by (simp add: sample_files)
  have "last (fst (handleGenerate sampleRuntime (sampleWorld sampleReply) (sampleApp\<lparr> files := [] \<rparr>)))
      \<in> set (fst (handleGenerate sampleRuntime (sampleWorld sampleReply) (sampleApp\<lparr> files := [] \<rparr>)))"
    by (rule last_in_set) (simp add: handleGenerate_rejects)
  with c have w5: "results (last (fst (handleGenerate sampleRuntime (sampleWorld sampleReply)
                           (sampleApp\<lparr> files := [] \<rparr>)))) = []"
    by (simp add: sampleApp_def)
  from w1 w2 w3 w4 w5 show ?thesis by blast
qed

text \<open>
  Claim C9 as stated fails: a ledger of two entries is emptied by a selection of files,
  and no batch has been started.
\<close>

theorem selection_clears_ledger:
  "length (results (ledgerOf [(''a.pdf'', SUCCESS), (''b.pdf'', ERROR)])) = 2
   \<and> \<not> isProcessing (ledgerOf [(''a.pdf'', SUCCESS), (''b.pdf'', ERROR)])
   \<and> results (handleFileSelect (Some [pdfFile ''c.pdf''])
               (ledgerOf [(''a.pdf'', SUCCESS), (''b.pdf'', ERROR)])) = []
   \<and> \<not> isProcessing (handleFileSelect (Some [pdfFile ''c.pdf''])
               (ledgerOf [(''a.pdf'', SUCCESS), (''b.pdf'', ERROR)]))"
  by (simp add: ledgerOf_def handleFileSelect_def sampleApp_def Let_def)


section \<open>Properties of the Volcano Engine client\<close>

text \<open>
  Claim C5. For every prompt and every behaviour of the network, a call with an empty
  credential resolves to the local failure text and issues no request.
\<close>

theorem volcano_empty_key_no_request:
  "generateSummaryFromVolcano rt fetch fullPrompt \<lparr> apiKey = [] \<rparr>
     = (Inr (JStr (js ''Error: Volcano Engine API Key is required but was not provided.'')), [])"
  by (simp add: generateSummaryFromVolcano_def keyRequired_def)

lemma atPath_undefined: "atPath JUndefined ps = JUndefined"
  by (cases ps) simp_all

lemma atPath_optProp: "atPath v (p # ps) = atPath (optProp v p) ps"
  by (cases v) (simp_all add: optProp_def atPath_undefined split: option.splits)

lemma atPath_ownProp: "\<not> nullish v \<Longrightarrow> atPath v (p # ps) = atPath (ownProp v p) ps"
  by (simp add: atPath_optProp optProp_def)

lemma errorMessage_path:
  "optProp (optProp body (js ''error'')) (js ''message'') = atPath body [js ''error'', js ''message'']"
  by (simp add: atPath_optProp)

lemma volcano_result:
  "apiKey creds \<noteq> [] \<Longrightarrow>
   fst (generateSummaryFromVolcano rt fetch fullPrompt creds)
     = Inr (case volcanoTry rt fetch (volcanoRequest fullPrompt creds) of
              Inr v \<Rightarrow> v
            | Inl (ErrorObj m) \<Rightarrow> JStr (volcanoFailure m)
            | Inl NonError \<Rightarrow> JStr volcanoUnknown)"
  by (simp add: generateSummaryFromVolcano_def)

lemma volcano_returns: "\<exists>v. fst (generateSummaryFromVolcano rt fetch fullPrompt creds) = Inr v"
  by (simp add: generateSummaryFromVolcano_def)

lemma try_rejected: "fetch request = Inl e \<Longrightarrow> volcanoTry rt fetch request = Inl e"
  by (simp add: volcanoTry_def)

lemma try_not_ok:
  assumes "fetch request = Inr response" and "\<not> ok response"
  shows "volcanoTry rt fetch request =
     Inl (ErrorObj
       (case jsonBody response of
          Inl e \<Rightarrow> requestFailed (statusCode response)
        | Inr body \<Rightarrow>
            if truthy (atPath body [js ''error'', js ''message''])
            then jsString rt (atPath body [js ''error'', js ''message''])
            else requestFailed (statusCode response)))"
proof (cases "jsonBody response")
  case (Inl e)
  have "optProp (optProp (JObj []) (js ''error'')) (js ''message'') = (JUndefined :: 'a jsval)"
    by (simp add: optProp_def)
  with assms Inl show ?thesis
    by (simp add: volcanoTry_def Let_def)
next
  case (Inr body)
  with assms show ?thesis
    by (simp add: volcanoTry_def Let_def errorMessage_path)
qed

lemma try_ok:
  assumes "fetch request = Inr response" and "ok response"
  shows "volcanoTry rt fetch request =
     (case jsonBody response of Inl e \<Rightarrow> Inl e | Inr data \<Rightarrow> checkData rt data)"
  using assms by (simp add: volcanoTry_def)

lemma checkData_nullish:
  "nullish data \<Longrightarrow>
   checkData rt data = Inl (ErrorObj (typeErrorMessage rt (ReadOf data (js ''choices''))))"
  by (simp add: checkData_def getProp_def)

lemma checkData_no_choices:
  assumes "\<not> nullish data" and "\<not> truthy (atPath data [js ''choices''])"
  shows "checkData rt data = Inl (ErrorObj invalidStructure)"
  using assms by (simp add: checkData_def getProp_def atPath_ownProp)

lemma checkData_empty:
  assumes "\<not> nullish data" and "atPath data [js ''choices''] = JArr []"
  shows "checkData rt data = Inl (ErrorObj invalidStructure)"
  using assms by (simp add: checkData_def getProp_def atPath_ownProp)

lemma checkData_first:
  assumes "\<not> nullish data" and "atPath data [js ''choices''] = JArr (c # cs)"
  shows "checkData rt data =
     (if nullish c then Inl (ErrorObj (typeErrorMessage rt (ReadOf c (js ''message''))))
      else if hasContent c then Inr (atPath c [js ''message'', js ''content''])
      else Inl (ErrorObj invalidStructure))"
proof -
  from assms have choices: "ownProp data (js ''choices'') = JArr (c # cs)"
    by (simp add: atPath_ownProp)
  have content: "optProp (ownProp c (js ''message'')) (js ''content'')
      = atPath c [js ''message'', js ''content'']" if "\<not> nullish c"
    using that by (simp add: atPath_ownProp[of c] atPath_optProp[of "ownProp c (js ''message'')"])
  show ?thesis
    using assms(1) content
    by (simp add: checkData_def getProp_def choices hasContent_def Let_def)
qed

lemma sample_key: "apiKey sampleCreds \<noteq> []"
  by (simp add: sampleCreds_def js_def)

lemma digits_500: "digits 500 = js ''500''"
  by (simp add: digits.simps js_def)

text \<open>
  What the client returns, by the response. The promise of the client is never
  rejected. With a credential: a rejection of \<^verbatim>\<open>fetch\<close> or of \<^verbatim>\<open>response.json()\<close> by
  an \<^verbatim>\<open>Error\<close> with message \<open>m\<close> gives the failure text
  \<^verbatim>\<open>Error during Volcano Engine summary generation: \<close> followed by \<open>m\<close>. A response
  that is not 2xx gives the failure text with the \<^verbatim>\<open>error.message\<close> of the body when
  that is not falsy, and with \<^verbatim>\<open>API request failed with status \<close> and the code
  otherwise. A 2xx body other than \<^verbatim>\<open>null\<close> that has no choice with message content,
  and whose \<^verbatim>\<open>choices\<close> is missing, falsy, an empty array or an array with a first
  element other than \<^verbatim>\<open>null\<close>, gives the failure text of an invalid response
  structure, and so does a \<^verbatim>\<open>choices\<close> that is a string; a \<^verbatim>\<open>choices\<close> that is
  \<^verbatim>\<open>true\<close> or a number other than zero makes the check fault.
\<close>

theorem volcano_failures_are_returned:
  assumes R: "R = fst (generateSummaryFromVolcano rt fetch fullPrompt creds)"
    and request: "request = volcanoRequest fullPrompt creds"
  shows "(\<exists>v. R = Inr v)
    \<and> (apiKey creds \<noteq> [] \<and> fetch request = Inl (ErrorObj m) \<longrightarrow>
          R = Inr (JStr (volcanoFailure m)))
    \<and> (apiKey creds \<noteq> [] \<and> fetch request = Inr response \<and> \<not> ok response \<longrightarrow>
          (jsonBody response = Inr body \<and> truthy (atPath body [js ''error'', js ''message'']) \<longrightarrow>
             R = Inr (JStr (volcanoFailure (jsString rt (atPath body [js ''error'', js ''message''])))))
        \<and> (jsonBody response = Inr body \<and> atPath body [js ''error'', js ''message''] = JStr m
             \<and> m \<noteq> [] \<longrightarrow>
             R = Inr (JStr (volcanoFailure m)))
        \<and> (jsonBody response = Inl e
             \<or> jsonBody response = Inr body \<and> \<not> truthy (atPath body [js ''error'', js ''message'']) \<longrightarrow>
             R = Inr (JStr (volcanoFailure (requestFailed (statusCode response))))))
    \<and> (apiKey creds \<noteq> [] \<and> fetch request = Inr response \<and> ok response \<longrightarrow>
          (jsonBody response = Inl (ErrorObj m) \<longrightarrow> R = Inr (JStr (volcanoFailure m)))
        \<and> (jsonBody response = Inr data \<and> \<not> nullish data
             \<and> (\<forall>choice \<in> set (choicesOf data). \<not> hasContent choice)
             \<and> (\<not> truthy (atPath data [js ''choices''])
                \<or> (\<exists>cs. atPath data [js ''choices''] = JArr cs \<and> (cs = [] \<or> \<not> nullish (hd cs)))) \<longrightarrow>
             R = Inr (JStr (volcanoFailure invalidStructure)))
        \<and> (jsonBody response = Inr data \<and> nullish data \<longrightarrow>
             R = Inr (JStr (volcanoFailure (typeErrorMessage rt (ReadOf data (js ''choices''))))))
        \<and> (jsonBody response = Inr data \<and> \<not> nullish data
             \<and> atPath data [js ''choices''] = JArr (c # cs) \<and> nullish c \<longrightarrow>
             R = Inr (JStr (volcanoFailure (typeErrorMessage rt (ReadOf c (js ''message'')))))))"
proof -
  have res: "R = Inr (case volcanoTry rt fetch request of
              Inr v \<Rightarrow> v
            | Inl (ErrorObj m) \<Rightarrow> JStr (volcanoFailure m)
            | Inl NonError \<Rightarrow> JStr volcanoUnknown)" if "apiKey creds \<noteq> []"
    unfolding R request using that by (rule volcano_result)
  have returns: "\<exists>v. R = Inr v"
    unfolding R by (rule volcano_returns)
  have rejected: "R = Inr (JStr (volcanoFailure m))"
    if "apiKey creds \<noteq> []" "fetch request = Inl (ErrorObj m)"
    using try_rejected[of fetch request _ rt] that by (simp add: res)
  have not_ok: "R = Inr (JStr (volcanoFailure
       (case jsonBody response of
          Inl e \<Rightarrow> requestFailed (statusCode response)
        | Inr body \<Rightarrow>
            if truthy (atPath body [js ''error'', js ''message''])
            then jsString rt (atPath body [js ''error'', js ''message''])
            else requestFailed (statusCode response))))"
    if "apiKey creds \<noteq> []" "fetch request = Inr response" "\<not> ok response"
    using try_not_ok[of fetch request response rt] that by (simp add: res)
  have is_ok: "R = Inr (case (case jsonBody response of Inl e \<Rightarrow> Inl e | Inr data \<Rightarrow> checkData rt data) of
              Inr v \<Rightarrow> v
            | Inl (ErrorObj m) \<Rightarrow> JStr (volcanoFailure m)
            | Inl NonError \<Rightarrow> JStr volcanoUnknown)"
    if "apiKey creds \<noteq> []" "fetch request = Inr response" "ok response"
    using try_ok[of fetch request response rt] that by (simp add: res)
  have lacking: "checkData rt data = Inl (ErrorObj invalidStructure)"
    if "\<not> nullish data" and none: "\<forall>choice \<in> set (choicesOf data). \<not> hasContent choice"
      and shape: "\<not> truthy (atPath data [js ''choices''])
        \<or> (\<exists>cs. atPath data [js ''choices''] = JArr cs \<and> (cs = [] \<or> \<not> nullish (hd cs)))"
  proof -
    from shape consider "\<not> truthy (atPath data [js ''choices''])"
      | "atPath data [js ''choices''] = JArr []"
      | c cs where "atPath data [js ''choices''] = JArr (c # cs)" "\<not> nullish c"
      by (metis list.exhaust list.sel(1))
    then show ?thesis
    proof cases
      case 1
      with that(1) show ?thesis by (rule checkData_no_choices)
    next
      case 2
      with that(1) show ?thesis by (rule checkData_empty)
    next
      case 3
      from 3(1) have "c \<in> set (choicesOf data)" by (simp add: choicesOf_def)
      with none have "\<not> hasContent c" by blast
      with 3 that(1) show ?thesis by (simp add: checkData_first)
    qed
  qed
  show ?thesis
  proof (intro conjI impI)
    show "\<exists>v. R = Inr v" by (rule returns)
    show "R = Inr (JStr (volcanoFailure m))"
      if "apiKey creds \<noteq> [] \<and> fetch request = Inl (ErrorObj m)"
      using that rejected by simp
    show "R = Inr (JStr (volcanoFailure (jsString rt (atPath body [js ''error'', js ''message'']))))"
      if "apiKey creds \<noteq> [] \<and> fetch request = Inr response \<and> \<not> ok response"
        "jsonBody response = Inr body \<and> truthy (atPath body [js ''error'', js ''message''])"
      using that not_ok by simp
    show "R = Inr (JStr (volcanoFailure m))"
      if "apiKey creds \<noteq> [] \<and> fetch request = Inr response \<and> \<not> ok response"
        "jsonBody response = Inr body \<and> atPath body [js ''error'', js ''message''] = JStr m \<and> m \<noteq> []"
      using that not_ok by (simp add: jsString_def)
    show "R = Inr (JStr (volcanoFailure (requestFailed (statusCode response))))"
      if "apiKey creds \<noteq> [] \<and> fetch request = Inr response \<and> \<not> ok response"
        "jsonBody response = Inl e
           \<or> jsonBody response = Inr body \<and> \<not> truthy (atPath body [js ''error'', js ''message''])"
      using that not_ok by auto
    show "R = Inr (JStr (volcanoFailure m))"
      if "apiKey creds \<noteq> [] \<and> fetch request = Inr response \<and> ok response" "jsonBody response = Inl (ErrorObj m)"
      using that is_ok by simp
    show "R = Inr (JStr (volcanoFailure invalidStructure))"
      if "apiKey creds \<noteq> [] \<and> fetch request = Inr response \<and> ok response"
        "jsonBody response = Inr data \<and> \<not> nullish data
          \<and> (\<forall>choice \<in> set (choicesOf data). \<not> hasContent choice)
          \<and> (\<not> truthy (atPath data [js ''choices''])
             \<or> (\<exists>cs. atPath data [js ''choices''] = JArr cs \<and> (cs = [] \<or> \<not> nullish (hd cs))))"
      using that is_ok lacking by simp
    show "R = Inr (JStr (volcanoFailure (typeErrorMessage rt (ReadOf data (js ''choices'')))))"
      if "apiKey creds \<noteq> [] \<and> fetch request = Inr response \<and> ok response" "jsonBody response = Inr data \<and> nullish data"
      using that is_ok by (simp add: checkData_nullish)
    show "R = Inr (JStr (volcanoFailure (typeErrorMessage rt (ReadOf c (js ''message'')))))"
      if "apiKey creds \<noteq> [] \<and> fetch request = Inr response \<and> ok response"
        "jsonBody response = Inr data \<and> \<not> nullish data
          \<and> atPath data [js ''choices''] = JArr (c # cs) \<and> nullish c"
      using that is_ok by (simp add: checkData_first)
  qed
qed

theorem volcano_failures_are_returned_witness:
  "fst (generateSummaryFromVolcano sampleRuntime (\<lambda>request. Inl (ErrorObj (js ''Failed to fetch'')))
         (js ''hi'') sampleCreds)
     = Inr (JStr (js ''Error during Volcano Engine summary generation: Failed to fetch''))
   \<and> fst (generateSummaryFromVolcano sampleRuntime
         (respond 401 (Inr (JObj [(js ''error'', JObj [(js ''message'', JStr (js ''Invalid API key''))])])))
         (js ''hi'') sampleCreds)
     = Inr (JStr (js ''Error during Volcano Engine summary generation: Invalid API key''))
   \<and> fst (generateSummaryFromVolcano sampleRuntime
         (respond 500 (Inl (ErrorObj (js ''Unexpected token'')))) (js ''hi'') sampleCreds)
     = Inr (JStr (js ''Error during Volcano Engine summary generation: API request failed with status 500''))
   \<and> fst (generateSummaryFromVolcano sampleRuntime
         (respond 200 (Inl (ErrorObj (js ''Unexpected end of JSON input'')))) (js ''hi'') sampleCreds)
     = Inr (JStr (js ''Error during Volcano Engine summary generation: Unexpected end of JSON input''))
   \<and> fst (generateSummaryFromVolcano sampleRuntime
         (respond 200 (Inr (JObj [(js ''choices'', JArr [])]))) (js ''hi'') sampleCreds)
     = Inr (JStr (js ''Error during Volcano Engine summary generation: Received an invalid response structure from the API.''))
   \<and> fst (generateSummaryFromVolcano sampleRuntime (respond 200 (Inr JNull)) (js ''hi'') sampleCreds)
     = Inr (JStr (js ''Error during Volcano Engine summary generation: Cannot read properties of null (reading 'choices')''))"
proof -
  note inst = volcano_failures_are_returned[OF refl refl, where rt = sampleRuntime
      and creds = sampleCreds
      and fullPrompt = "js ''hi''"]
  have w1: "fst (generateSummaryFromVolcano sampleRuntime (\<lambda>request. Inl (ErrorObj (js ''Failed to fetch'')))
         (js ''hi'') sampleCreds)
     = Inr (JStr (js ''Error during Volcano Engine summary generation: Failed to fetch''))"
    using inst[where fetch = "\<lambda>request. Inl (ErrorObj (js ''Failed to fetch''))"
        and m = "js ''Failed to fetch''"]
    by (simp add: sample_key volcanoFailure_def js_def)
  have w2: "fst (generateSummaryFromVolcano sampleRuntime
         (respond 401 (Inr (JObj [(js ''error'', JObj [(js ''message'', JStr (js ''Invalid API key''))])])))
         (js ''hi'') sampleCreds)
     = Inr (JStr (js ''Error during Volcano Engine summary generation: Invalid API key''))"
    using inst[where fetch = "respond 401 (Inr (JObj [(js ''error'', JObj [(js ''message'', JStr (js ''Invalid API key''))])]))"
        and response = "\<lparr> statusCode = 401, jsonBody = Inr (JObj [(js ''error'', JObj [(js ''message'', JStr (js ''Invalid API key''))])]) \<rparr>"
        and body = "JObj [(js ''error'', JObj [(js ''message'', JStr (js ''Invalid API key''))])]"
        and m = "js ''Invalid API key''"]
    by (simp add: sample_key respond_def ok_def volcanoFailure_def jsString_def js_def)
  have w3: "fst (generateSummaryFromVolcano sampleRuntime
         (respond 500 (Inl (ErrorObj (js ''Unexpected token'')))) (js ''hi'') sampleCreds)
     = Inr (JStr (js ''Error during Volcano Engine summary generation: API request failed with status 500''))"
    using inst[where fetch = "respond 500 (Inl (ErrorObj (js ''Unexpected token'')))"
        and response = "\<lparr> statusCode = 500, jsonBody = Inl (ErrorObj (js ''Unexpected token'')) \<rparr>"
        and e = "ErrorObj (js ''Unexpected token'')"]
    by (simp add: sample_key respond_def ok_def volcanoFailure_def requestFailed_def digits_500) (simp add: js_def)
  have w4: "fst (generateSummaryFromVolcano sampleRuntime
         (respond 200 (Inl (ErrorObj (js ''Unexpected end of JSON input'')))) (js ''hi'') sampleCreds)
     = Inr (JStr (js ''Error during Volcano Engine summary generation: Unexpected end of JSON input''))"
    using inst[where fetch = "respond 200 (Inl (ErrorObj (js ''Unexpected end of JSON input'')))"
        and response = "\<lparr> statusCode = 200, jsonBody = Inl (ErrorObj (js ''Unexpected end of JSON input'')) \<rparr>"
        and m = "js ''Unexpected end of JSON input''"]
    by (simp add: sample_key respond_def ok_def volcanoFailure_def js_def)
  have w5: "fst (generateSummaryFromVolcano sampleRuntime
         (respond 200 (Inr (JObj [(js ''choices'', JArr [])]))) (js ''hi'') sampleCreds)
     = Inr (JStr (js ''Error during Volcano Engine summary generation: Received an invalid response structure from the API.''))"
    using inst[where fetch = "respond 200 (Inr (JObj [(js ''choices'', JArr [])]))"
        and response = "\<lparr> statusCode = 200, jsonBody = Inr (JObj [(js ''choices'', JArr [])]) \<rparr>"
        and data = "JObj [(js ''choices'', JArr [])]"]
    by (simp add: sample_key respond_def ok_def volcanoFailure_def invalidStructure_def choicesOf_def)
       (simp add: js_def)
  have w6: "fst (generateSummaryFromVolcano sampleRuntime (respond 200 (Inr JNull)) (js ''hi'') sampleCreds)
     = Inr (JStr (js ''Error during Volcano Engine summary generation: Cannot read properties of null (reading 'choices')''))"
    using inst[where fetch = "respond 200 (Inr JNull)"
        and response = "\<lparr> statusCode = 200, jsonBody = Inr JNull \<rparr>"
        and data = JNull]
    by (simp add: sample_key respond_def ok_def volcanoFailure_def sampleRuntime_def sampleTypeError_def)
       (simp add: js_def)
  from w1 w2 w3 w4 w5 w6 show ?thesis by blast
qed

lemma checkData_text_choices:
  assumes "\<not> nullish data" and "atPath data [js ''choices''] = JStr (c # cs)"
  shows "checkData rt data = Inl (ErrorObj invalidStructure)"
proof -
  from assms have "ownProp data (js ''choices'') = JStr (c # cs)"
    by (simp add: atPath_ownProp)
  with assms(1) show ?thesis
    by (simp add: checkData_def getProp_def optProp_def)
qed

lemma checkData_scalar_choices:
  assumes "\<not> nullish data"
    and "atPath data [js ''choices''] = JBool True
         \<or> (\<exists>n. atPath data [js ''choices''] = JNum n \<and> n \<noteq> 0)"
  shows "checkData rt data
      = Inl (ErrorObj (typeErrorMessage rt (ReadOf JUndefined (js ''message''))))"
proof -
  from assms have "ownProp data (js ''choices'') = JBool True
      \<or> (\<exists>n. ownProp data (js ''choices'') = JNum n \<and> n \<noteq> 0)"
    by (simp add: atPath_ownProp)
  with assms(1) show ?thesis
    by (auto simp: checkData_def getProp_def)
qed

lemma sample_response:
  "apiKey creds \<noteq> [] \<Longrightarrow>
   fst (generateSummaryFromVolcano rt (respond 200 (Inr data)) fullPrompt creds)
     = Inr (case checkData rt data of
              Inr v \<Rightarrow> v
            | Inl (ErrorObj m) \<Rightarrow> JStr (volcanoFailure m)
            | Inl NonError \<Rightarrow> JStr volcanoUnknown)"
  by (simp add: volcano_result volcanoTry_def respond_def ok_def)

text \<open>
  Claim C6, at 2xx bodies without a choice that has message content. For
  \<^verbatim>\<open>{"choices": []}\<close>, \<^verbatim>\<open>{"choices": [{}]}\<close> and \<^verbatim>\<open>{"choices": [{"message": null}]}\<close>
  the failure text is the one of an invalid response structure. For
  \<^verbatim>\<open>{"choices": [null]}\<close> and for \<^verbatim>\<open>null\<close> the check itself faults, since it reads
  \<^verbatim>\<open>data.choices\<close> and \<^verbatim>\<open>data.choices[0].message\<close> without \<^verbatim>\<open>?.\<close>, and the failure
  text carries the message of that fault instead: in V8,
  \<^verbatim>\<open>Cannot read properties of null (reading 'message')\<close>.
\<close>

theorem null_choice_faults_in_check:
  "fst (generateSummaryFromVolcano rt
         (respond 200 (Inr (JObj [(js ''choices'', JArr [])]))) fullPrompt sampleCreds)
     = Inr (JStr (js ''Error during Volcano Engine summary generation: Received an invalid response structure from the API.''))
   \<and> fst (generateSummaryFromVolcano rt
         (respond 200 (Inr (JObj [(js ''choices'', JArr [JObj []])]))) fullPrompt sampleCreds)
     = Inr (JStr (js ''Error during Volcano Engine summary generation: Received an invalid response structure from the API.''))
   \<and> fst (generateSummaryFromVolcano rt
         (respond 200 (Inr (JObj [(js ''choices'', JArr [JObj [(js ''message'', JNull)]])])))
         fullPrompt sampleCreds)
     = Inr (JStr (js ''Error during Volcano Engine summary generation: Received an invalid response structure from the API.''))
   \<and> fst (generateSummaryFromVolcano rt
         (respond 200 (Inr (JObj [(js ''choices'', JArr [JNull])]))) fullPrompt sampleCreds)
     = Inr (JStr (js ''Error during Volcano Engine summary generation: ''
                  @ typeErrorMessage rt (ReadOf JNull (js ''message''))))
   \<and> fst (generateSummaryFromVolcano rt (respond 200 (Inr JNull)) fullPrompt sampleCreds)
     = Inr (JStr (js ''Error during Volcano Engine summary generation: ''
                  @ typeErrorMessage rt (ReadOf JNull (js ''choices''))))
   \<and> fst (generateSummaryFromVolcano sampleRuntime
         (respond 200 (Inr (JObj [(js ''choices'', JArr [JNull])]))) fullPrompt sampleCreds)
     = Inr (JStr (js ''Error during Volcano Engine summary generation: Cannot read properties of null (reading 'message')''))"
proof -
  have invalid: "JStr (volcanoFailure invalidStructure)
      = (JStr (js ''Error during Volcano Engine summary generation: Received an invalid response structure from the API.'') :: 'b jsval)"
    by (simp add: volcanoFailure_def invalidStructure_def js_def)
  have c1: "checkData rt (JObj [(js ''choices'', JArr [])]) = Inl (ErrorObj invalidStructure)"
    by (simp add: checkData_def getProp_def)
  have c2: "checkData rt (JObj [(js ''choices'', JArr [JObj []])]) = Inl (ErrorObj invalidStructure)"
    by (simp add: checkData_def getProp_def optProp_def)
  have c3: "checkData rt (JObj [(js ''choices'', JArr [JObj [(js ''message'', JNull)]])])
      = Inl (ErrorObj invalidStructure)"
    by (simp add: checkData_def getProp_def optProp_def)
  have c4: "checkData rt' (JObj [(js ''choices'', JArr [JNull])])
      = Inl (ErrorObj (typeErrorMessage rt' (ReadOf JNull (js ''message''))))" for rt' :: "'c::zero runtime"
    by (simp add: checkData_def getProp_def)
  have c5: "checkData rt JNull = Inl (ErrorObj (typeErrorMessage rt (ReadOf JNull (js ''choices''))))"
    by (simp add: checkData_def getProp_def)
  have v8: "js ''Error during Volcano Engine summary generation: ''
        @ typeErrorMessage sampleRuntime (ReadOf JNull (js ''message''))
      = js ''Error during Volcano Engine summary generation: Cannot read properties of null (reading 'message')''"
    by (simp add: sampleRuntime_def sampleTypeError_def js_def)
  show ?thesis
    by (simp add: sample_response[OF sample_key] c1 c2 c3 c4 c5 invalid)
       (simp add: volcanoFailure_def v8)
qed

end
